theory Spec2Isabelle
  imports Complex_Main
begin

section \<open>PANOLENS.Viewer: the scene objects the viewer reads\<close>

text \<open>
  The viewer (\<^verbatim>\<open>src/viewer/Viewer.js\<close>) holds references to objects of the scene graph
  and compares them by identity (\<^verbatim>\<open>===\<close>), so an object is a reference into a store.
  The store records, for each object, the properties the viewer reads: \<^verbatim>\<open>type\<close>,
  \<^verbatim>\<open>position\<close>, \<^verbatim>\<open>passThrough\<close> (by truthiness), \<^verbatim>\<open>entity\<close> (absent or an object),
  whether the methods \<^verbatim>\<open>dispatchEvent\<close>, \<^verbatim>\<open>onHover\<close> and \<^verbatim>\<open>onClick\<close> are present, and
  whether the object is an instance of \<^verbatim>\<open>PANOLENS.Infospot\<close>. The viewer never writes
  these properties. World coordinates are real numbers: the rounding of JavaScript's
  doubles is not modelled.
\<close>

type_synonym ref = nat

record vec3 =
  vx :: real
  vy :: real
  vz :: real

record obj =
  otype :: string
  position :: vec3
  passThrough :: bool
  entity :: "ref option"
  dispatchEvent :: bool
  Infospot :: bool
  onHover :: bool
  onClick :: bool

type_synonym heap = "ref \<Rightarrow> obj"

text \<open>
  One entry of the list \<^verbatim>\<open>THREE.Raycaster.intersectObjects\<close> returns, nearest first.
  Every entry of a ray cast carries the object that was hit, so \<open>object\<close> is a reference
  and the guard \<^verbatim>\<open>intersects[i].object &&\<close> of \<^verbatim>\<open>getConvertedIntersect\<close> is always passed.
\<close>

record intersection =
  object :: ref
  point :: vec3

section \<open>getConvertedIntersect\<close>

text \<open>
  \<^verbatim>\<open>
  for ( var i = 0; i < intersects.length; i++ ) {
    if ( intersects[i].object && !intersects[i].object.passThrough ) {
      if ( intersects[i].object.entity && intersects[i].object.entity.passThrough ) {
        continue;
      } else if ( intersects[i].object.entity && !intersects[i].object.entity.passThrough ) {
        intersect = intersects[i].object.entity; break;
      } else {
        intersect = intersects[i].object; break;
      }
    }
  }
  return intersect;
  \<close>
  The loop runs over the index \<open>i\<close>; \<open>None\<close> is the \<^verbatim>\<open>undefined\<close> of a variable that was
  never assigned.
\<close>

function getConvertedIntersect_loop :: "heap \<Rightarrow> intersection list \<Rightarrow> nat \<Rightarrow> ref option" where
  "getConvertedIntersect_loop h intersects i =
     (if i < length intersects then
        (let ob = object (intersects ! i) in
         if \<not> passThrough (h ob) then
           (case entity (h ob) of
              Some e \<Rightarrow>
                if passThrough (h e) then getConvertedIntersect_loop h intersects (i + 1)
                else Some e
            | None \<Rightarrow> Some ob)
         else getConvertedIntersect_loop h intersects (i + 1))
      else None)"
  by pat_completeness auto
termination
  by (relation "measure (\<lambda>(h, intersects, i). length intersects - i)") auto

definition getConvertedIntersect :: "heap \<Rightarrow> intersection list \<Rightarrow> ref option" where
  "getConvertedIntersect h intersects = getConvertedIntersect_loop h intersects 0"

subsection \<open>The resolver as the specification words it\<close>

text \<open>
  An intersection is skipped when its primitive is pass-through, or when the primitive
  maps to an entity that is pass-through. The target of an intersection that is not
  skipped is the entity of its primitive when there is one, the primitive otherwise.
  The resolver returns the target of the first intersection that is not skipped.
\<close>

definition skipped :: "heap \<Rightarrow> intersection \<Rightarrow> bool" where
  "skipped h x =
     (passThrough (h (object x)) \<or>
      (case entity (h (object x)) of None \<Rightarrow> False | Some e \<Rightarrow> passThrough (h e)))"

definition target_of :: "heap \<Rightarrow> intersection \<Rightarrow> ref" where
  "target_of h x = (case entity (h (object x)) of None \<Rightarrow> object x | Some e \<Rightarrow> e)"

definition resolveEntity :: "heap \<Rightarrow> intersection list \<Rightarrow> ref option" where
  "resolveEntity h xs = map_option (target_of h) (find (\<lambda>x. \<not> skipped h x) xs)"

section \<open>The viewer's state\<close>

text \<open>
  \<^verbatim>\<open>options\<close> as the caller passes them (every property may be absent) and as the
  constructor stores them (lines 30 to 36):
  \<^verbatim>\<open>
  options.controlBar = options.controlBar !== undefined ? options.controlBar : true;
  options.autoHideControlBar = options.autoHideControlBar !== undefined ? options.autoHideControlBar : false;
  options.autoHideInfospot = options.autoHideInfospot !== undefined ? options.autoHideInfospot : true;
  options.horizontalView = options.horizontalView !== undefined ? options.horizontalView : false;
  options.clickTolerance = options.clickTolerance || 10;
  \<close>
  The tolerance is a number of pixels, an integer; \<^verbatim>\<open>||\<close> replaces the falsy \<open>0\<close> as it
  replaces \<^verbatim>\<open>undefined\<close>.
\<close>

record options_arg =
  arg_controlBar :: "bool option"
  arg_autoHideControlBar :: "bool option"
  arg_autoHideInfospot :: "bool option"
  arg_horizontalView :: "bool option"
  arg_clickTolerance :: "int option"

record options =
  controlBar :: bool
  autoHideControlBar :: bool
  autoHideInfospot :: bool
  horizontalView :: bool
  clickTolerance :: int

definition Viewer_options :: "options_arg \<Rightarrow> options" where
  "Viewer_options a =
     \<lparr> controlBar = (case arg_controlBar a of Some b \<Rightarrow> b | None \<Rightarrow> True),
       autoHideControlBar = (case arg_autoHideControlBar a of Some b \<Rightarrow> b | None \<Rightarrow> False),
       autoHideInfospot = (case arg_autoHideInfospot a of Some b \<Rightarrow> b | None \<Rightarrow> True),
       horizontalView = (case arg_horizontalView a of Some b \<Rightarrow> b | None \<Rightarrow> False),
       clickTolerance = (case arg_clickTolerance a of Some t \<Rightarrow> if t \<noteq> 0 then t else 10 | None \<Rightarrow> 10) \<rparr>"

text \<open>
  The values of \<^verbatim>\<open>userMouse.type\<close>: never assigned, or one of the four strings the
  handlers store.
\<close>

datatype mouse_type = type_undefined | mousedown | mousemove | mouseup | none

text \<open>
  A camera control: its \<^verbatim>\<open>name\<close>, its \<^verbatim>\<open>enabled\<close> flag and, for the orbit control, its
  \<^verbatim>\<open>target\<close>. The viewer writes the flag and the target, so the controls live in a store
  of the viewer's state, and \<^verbatim>\<open>this.controls\<close>, \<^verbatim>\<open>this.control\<close> and
  \<^verbatim>\<open>this.OrbitControls\<close> are references into it.
\<close>

type_synonym cref = nat

record control_obj =
  cname :: string
  enabled :: bool
  ctarget :: vec3

text \<open>
  \<^verbatim>\<open>WebVRManager.Modes\<close>, and the two properties of the manager the viewer reads:
  \<^verbatim>\<open>this.VRManager.mode\<close> (line 232, \<^verbatim>\<open>toggleVR\<close>) and \<^verbatim>\<open>this.VRManager.Mode\<close>
  (line 418, \<^verbatim>\<open>render\<close>). Property names are case sensitive: these are two properties,
  and a property the manager does not have reads as \<^verbatim>\<open>undefined\<close>.
\<close>

datatype vr_mode = UNKNOWN | NORMAL | MAGIC_WINDOW | VR

record viewer =
  options :: options
  userMouse_x :: int
  userMouse_y :: int
  userMouse_type :: mouse_type
  panorama :: "ref option"
  hoverObject :: "ref option"
  hoveringObject :: "ref option"
  pressEntityObject :: "ref option"
  pressObject :: "ref option"
  DEBUG :: bool
  cursor :: string
  camera_position :: vec3
  controls :: "cref list"
  control :: "cref option"
  OrbitControls :: cref
  control_objs :: "cref \<Rightarrow> control_obj"
  updateCallbacks :: "nat list"
  VRManager_mode :: vr_mode
  VRManager_Mode :: "vr_mode option"

section \<open>Events, calls into collaborators, errors\<close>

text \<open>
  A DOM event as the handlers read it. A mouse event has \<^verbatim>\<open>clientX\<close> and \<^verbatim>\<open>clientY\<close>
  and no touch lists; a touch event has \<^verbatim>\<open>touches\<close> and \<^verbatim>\<open>changedTouches\<close> and no
  client coordinates. \<open>target\<close> is the class list of \<^verbatim>\<open>event.target\<close>, when the event
  has a target. Client coordinates are whole pixels.
\<close>

record touch =
  tclientX :: int
  tclientY :: int

record event =
  clientX :: "int option"
  clientY :: "int option"
  touches :: "touch list option"
  changedTouches :: "touch list option"
  target :: "string list option"

record key_event =
  keyCode :: int
  keyIdentifier :: string

text \<open>
  The two ray casts of \<^verbatim>\<open>onTap\<close> are the renderer's work: their results are inputs.
  \<open>on_panorama\<close> is \<^verbatim>\<open>raycaster.intersectObject( this.panorama, true )\<close> (line 505, read
  in DEBUG mode only), \<open>on_children\<close> is
  \<^verbatim>\<open>raycaster.intersectObjects( this.panorama.children, true )\<close> (line 524).
\<close>

record raycast =
  on_panorama :: "intersection list"
  on_children :: "intersection list"

text \<open>The \<^verbatim>\<open>type\<close> of a dispatched event.\<close>

datatype event_type =
  click | click_entity | hover | hoverenter | hoverleave
  | pressstart | pressstart_entity | pressmove | pressmove_entity
  | pressstop | pressstop_entity

text \<open>The second argument of \<^verbatim>\<open>onTap\<close>: the string \<^verbatim>\<open>'click'\<close> or \<^verbatim>\<open>undefined\<close>.\<close>

datatype tap_type = Click | Undefined

text \<open>
  What the viewer does to its collaborators is recorded as a list of calls, in the order
  they are made. The methods called are those the collaborators provide by contract
  (a panorama has \<^verbatim>\<open>dispatchEvent\<close>, \<^verbatim>\<open>onEnter\<close>, \<^verbatim>\<open>onLeave\<close> and
  \<^verbatim>\<open>toggleChildrenVisibility\<close>; an infospot with \<^verbatim>\<open>onHover\<close> has \<^verbatim>\<open>onHoverEnd\<close>); what
  they do in turn is outside the viewer.
\<close>

datatype call =
  Dispatch ref event_type
  | OnHover ref "int option" "int option"
  | OnClick ref
  | OnHoverEnd ref
  | OnLeave ref
  | OnEnter ref
  | ToggleChildrenVisibility ref
  | PreventDefault
  | Console_info
  | OnVRClick
  | OnBackClick
  | TWEEN_update
  | Callback nat
  | Control_update cref
  | VRControls_update
  | VRManager_render

text \<open>
  A handler returns or throws. Either way it leaves a state and the calls made so far:
  an exception thrown in a DOM event handler ends that handler only.
\<close>

datatype error = TypeError | ReferenceError

datatype 'a completion = Return 'a | Throw error

text \<open>Sequencing of two steps that cannot throw.\<close>

definition and_then ::
  "viewer \<times> call list \<Rightarrow> (viewer \<Rightarrow> viewer \<times> call list) \<Rightarrow> viewer \<times> call list" where
  "and_then r f = (case r of (v, tr) \<Rightarrow> (case f v of (v', tr') \<Rightarrow> (v', tr @ tr')))"

section \<open>setPanorama\<close>

text \<open>
  \<^verbatim>\<open>
  if ( pano.type === 'panorama' ) {
    this.panorama && this.panorama.onLeave();
    (this.panorama = pano).onEnter();
  }
  \<close>
\<close>

definition setPanorama :: "heap \<Rightarrow> viewer \<Rightarrow> ref \<Rightarrow> viewer \<times> call list" where
  "setPanorama h v pano =
     (if otype (h pano) = ''panorama'' then
        (v\<lparr>panorama := Some pano\<rparr>,
         (case panorama v of Some p \<Rightarrow> [OnLeave p] | None \<Rightarrow> []) @ [OnEnter pano])
      else (v, []))"

section \<open>Camera controls\<close>

text \<open>
  \<^verbatim>\<open>setCameraControl\<close> (lines 317 to 323), the listener of a panorama's
  \<^verbatim>\<open>enter-start\<close>. Reading \<^verbatim>\<open>this.panorama.position\<close> throws when no panorama is
  current.
\<close>

definition setCameraControl :: "heap \<Rightarrow> viewer \<Rightarrow> viewer \<times> call list \<times> unit completion" where
  "setCameraControl h v =
     (case panorama v of
        None \<Rightarrow> (v, [], Throw TypeError)
      | Some p \<Rightarrow>
          (let v1 = v\<lparr>camera_position := position (h p)\<rparr>;
               v2 = v1\<lparr>camera_position := (camera_position v1)\<lparr>vz := vz (camera_position v1) + 1\<rparr>\<rparr>;
               oc = OrbitControls v2;
               v3 = v2\<lparr>control_objs := (control_objs v2)(oc := (control_objs v2 oc)\<lparr>ctarget := position (h p)\<rparr>)\<rparr>
           in (v3, [], Return ())))"

text \<open>\<^verbatim>\<open>Array.prototype.indexOf\<close>: the first index of the element, or \<open>-1\<close>.\<close>

fun indexOf :: "'a list \<Rightarrow> 'a \<Rightarrow> int" where
  "indexOf [] a = -1"
| "indexOf (x # xs) a = (if x = a then 0 else (let i = indexOf xs a in if i < 0 then -1 else i + 1))"

text \<open>
  \<^verbatim>\<open>
  return ( this.controls.indexOf( this.control ) + 1 >= this.controls.length )
    ? 0 : this.controls.indexOf( this.control ) + 1;
  \<close>
  An undefined \<^verbatim>\<open>this.control\<close> is not in the list.
\<close>

definition getNextControlIndex :: "viewer \<Rightarrow> int" where
  "getNextControlIndex v =
     (let i = (case control v of Some c \<Rightarrow> indexOf (controls v) c | None \<Rightarrow> -1) in
      if i + 1 \<ge> int (length (controls v)) then 0 else i + 1)"

text \<open>
  \<^verbatim>\<open>
  index = ( index >= 0 && index < this.controls.length ) ? index : 0;
  this.control.enabled = false;
  this.control = this.controls[ index ];
  this.control.enabled = true;
  switch ( this.control.name ) {
    case 'orbit':
      this.camera.position.copy( this.panorama.position );
      this.camera.position.z += 1;
      break;
    case 'device-orientation':
      this.camera.position.copy( this.panorama.position );
      break;
    default:
      break;
  }
  \<close>
  The index is an integer. Writing \<^verbatim>\<open>enabled\<close> on an undefined \<^verbatim>\<open>this.control\<close> throws,
  before and after the assignment (an empty list of controls has no entry \<open>0\<close>), and so
  does reading the position of an undefined panorama.
  \<open>enableControl_pose\<close> is the \<^verbatim>\<open>switch\<close> statement, \<open>enableControl\<close> the whole function.
\<close>

definition enableControl_pose :: "heap \<Rightarrow> viewer \<Rightarrow> cref \<Rightarrow> viewer \<times> call list \<times> unit completion" where
  "enableControl_pose h v c =
     (if cname (control_objs v c) = ''orbit'' then
        (case panorama v of
           None \<Rightarrow> (v, [], Throw TypeError)
         | Some p \<Rightarrow>
             (let v4 = v\<lparr>camera_position := position (h p)\<rparr>;
                  v5 = v4\<lparr>camera_position := (camera_position v4)\<lparr>vz := vz (camera_position v4) + 1\<rparr>\<rparr>
              in (v5, [], Return ())))
      else if cname (control_objs v c) = ''device-orientation'' then
        (case panorama v of
           None \<Rightarrow> (v, [], Throw TypeError)
         | Some p \<Rightarrow> (v\<lparr>camera_position := position (h p)\<rparr>, [], Return ()))
      else (v, [], Return ()))"

definition enableControl :: "heap \<Rightarrow> viewer \<Rightarrow> int \<Rightarrow> viewer \<times> call list \<times> unit completion" where
  "enableControl h v index0 =
     (let index = (if index0 \<ge> 0 \<and> index0 < int (length (controls v)) then index0 else 0) in
      case control v of
        None \<Rightarrow> (v, [], Throw TypeError)
      | Some c0 \<Rightarrow>
          (let v1 = v\<lparr>control_objs := (control_objs v)(c0 := (control_objs v c0)\<lparr>enabled := False\<rparr>)\<rparr> in
           if nat index < length (controls v1) then
             (let c = controls v1 ! nat index;
                  v2 = v1\<lparr>control := Some c\<rparr>;
                  v3 = v2\<lparr>control_objs := (control_objs v2)(c := (control_objs v2 c)\<lparr>enabled := True\<rparr>)\<rparr>
              in enableControl_pose h v3 c)
           else (v1\<lparr>control := None\<rparr>, [], Throw TypeError)))"

definition toggleNextControl :: "heap \<Rightarrow> viewer \<Rightarrow> viewer \<times> call list \<times> unit completion" where
  "toggleNextControl h v = enableControl h v (getNextControlIndex v)"

text \<open>
  \<^verbatim>\<open>
  if ( this.VRManager.mode !== WebVRManager.Modes.VR ) { this.VRManager.onVRClick_(); }
  else { this.VRManager.onBackClick_(); }
  \<close>
  Entering and leaving the VR mode is the manager's work.
\<close>

definition toggleVR :: "viewer \<Rightarrow> viewer \<times> call list" where
  "toggleVR v = (if VRManager_mode v \<noteq> VR then (v, [OnVRClick]) else (v, [OnBackClick]))"

section \<open>render\<close>

text \<open>
  \<^verbatim>\<open>
  TWEEN.update();
  this.updateCallbacks.forEach( function( callback ){ callback(); } );
  this.control && this.control.update();
  this.VRManager && this.VRControls && this.VRManager.Mode === WebVRManager.Modes.VR
    && this.VRControls.update();
  this.VRManager.render( this.scene, this.camera );
  \<close>
  The constructor creates \<^verbatim>\<open>this.VRManager\<close> and \<^verbatim>\<open>this.VRControls\<close> and nothing
  removes them.
\<close>

definition render :: "viewer \<Rightarrow> viewer \<times> call list" where
  "render v =
     (v, [TWEEN_update]
         @ map Callback (updateCallbacks v)
         @ (case control v of Some c \<Rightarrow> [Control_update c] | None \<Rightarrow> [])
         @ (if VRManager_Mode v = Some VR then [VRControls_update] else [])
         @ [VRManager_render])"

definition addUpdateCallback :: "viewer \<Rightarrow> nat option \<Rightarrow> viewer" where
  "addUpdateCallback v fn =
     (case fn of Some f \<Rightarrow> v\<lparr>updateCallbacks := updateCallbacks v @ [f]\<rparr> | None \<Rightarrow> v)"

section \<open>Keyboard\<close>

definition onKeyDown :: "viewer \<Rightarrow> key_event \<Rightarrow> viewer" where
  "onKeyDown v ev = (if keyCode ev = 17 \<or> keyIdentifier ev = ''Control'' then v\<lparr>DEBUG := True\<rparr> else v)"

definition onKeyUp :: "viewer \<Rightarrow> key_event \<Rightarrow> viewer" where
  "onKeyUp v ev = v\<lparr>DEBUG := False\<rparr>"

section \<open>onTap: the hit test and the pointer events it dispatches\<close>

text \<open>
  Lines 503 to 522: in DEBUG mode the point hit on the panorama is written to the
  console.
\<close>

definition tap_debug :: "viewer \<Rightarrow> raycast \<Rightarrow> viewer \<times> call list" where
  "tap_debug v rc = (v, if DEBUG v \<and> on_panorama rc \<noteq> [] then [Console_info] else [])"

text \<open>
  Lines 530 to 540:
  \<^verbatim>\<open>
  if ( this.userMouse.type === 'mouseup' ) {
    if ( intersect_entity && this.pressEntityObject === intersect_entity
         && this.pressEntityObject.dispatchEvent ) {
      this.pressEntityObject.dispatchEvent( { type: 'pressstop-entity', mouseEvent: event } );
    }
    this.pressEntityObject = undefined;
  }
  \<close>
\<close>

definition tap_pressstop_entity :: "heap \<Rightarrow> ref option \<Rightarrow> viewer \<Rightarrow> viewer \<times> call list" where
  "tap_pressstop_entity h intersect_entity v =
     (if userMouse_type v = mouseup then
        (v\<lparr>pressEntityObject := None\<rparr>,
         (case intersect_entity of
            Some e \<Rightarrow>
              if pressEntityObject v = Some e \<and> dispatchEvent (h e)
              then [Dispatch e pressstop_entity] else []
          | None \<Rightarrow> []))
      else (v, []))"

text \<open>Lines 542 to 552: the same for \<^verbatim>\<open>intersect\<close> and \<^verbatim>\<open>this.pressObject\<close>.\<close>

definition tap_pressstop :: "heap \<Rightarrow> ref option \<Rightarrow> viewer \<Rightarrow> viewer \<times> call list" where
  "tap_pressstop h intersect v =
     (if userMouse_type v = mouseup then
        (v\<lparr>pressObject := None\<rparr>,
         (case intersect of
            Some ob \<Rightarrow>
              if pressObject v = Some ob \<and> dispatchEvent (h ob)
              then [Dispatch ob pressstop] else []
          | None \<Rightarrow> []))
      else (v, []))"

text \<open>
  Lines 556 to 568, the branch \<^verbatim>\<open>type === 'click'\<close>:
  \<^verbatim>\<open>
  this.panorama.dispatchEvent( { type: 'click', intersects: intersects, mouseEvent: event } );
  if ( intersect_entity && intersect_entity.dispatchEvent ) {
    intersect_entity.dispatchEvent( { type: 'click-entity', mouseEvent: event } );
  }
  if ( intersect && intersect.dispatchEvent ) {
    intersect.dispatchEvent( { type: 'click', mouseEvent: event } );
  }
  \<close>
\<close>

definition tap_click :: "heap \<Rightarrow> ref \<Rightarrow> ref option \<Rightarrow> ref option \<Rightarrow> viewer \<Rightarrow> viewer \<times> call list" where
  "tap_click h p intersect_entity intersect v =
     (v, [Dispatch p click]
         @ (case intersect_entity of
              Some e \<Rightarrow> if dispatchEvent (h e) then [Dispatch e click_entity] else []
            | None \<Rightarrow> [])
         @ (case intersect of
              Some ob \<Rightarrow> if dispatchEvent (h ob) then [Dispatch ob click] else []
            | None \<Rightarrow> []))"

text \<open>
  Lines 574 to 585:
  \<^verbatim>\<open>
  if ( ( this.hoverObject && intersects.length > 0 && this.hoverObject !== intersect_entity )
    || ( this.hoverObject && intersects.length === 0 ) ) {
    if ( this.hoverObject.dispatchEvent ) {
      this.hoverObject.dispatchEvent( { type: 'hoverleave', mouseEvent: event } );
    }
    this.hoverObject = undefined;
  }
  \<close>
\<close>

definition tap_hoverleave ::
  "heap \<Rightarrow> intersection list \<Rightarrow> ref option \<Rightarrow> viewer \<Rightarrow> viewer \<times> call list" where
  "tap_hoverleave h intersects intersect_entity v =
     (case hoverObject v of
        Some ho \<Rightarrow>
          if (length intersects > 0 \<and> Some ho \<noteq> intersect_entity) \<or> length intersects = 0 then
            (v\<lparr>hoverObject := None\<rparr>,
             if dispatchEvent (h ho) then [Dispatch ho hoverleave] else [])
          else (v, [])
      | None \<Rightarrow> (v, []))"

text \<open>
  Lines 589 to 599:
  \<^verbatim>\<open>
  if ( this.hoverObject !== intersect_entity ) {
    this.hoverObject = intersect_entity;
    if ( this.hoverObject.dispatchEvent ) {
      this.hoverObject.dispatchEvent( { type: 'hoverenter', mouseEvent: event } );
    }
  }
  \<close>
\<close>

definition tap_hoverenter :: "heap \<Rightarrow> ref \<Rightarrow> viewer \<Rightarrow> viewer \<times> call list" where
  "tap_hoverenter h e v =
     (if hoverObject v \<noteq> Some e then
        (v\<lparr>hoverObject := Some e\<rparr>, if dispatchEvent (h e) then [Dispatch e hoverenter] else [])
      else (v, []))"

text \<open>
  Lines 601 to 611:
  \<^verbatim>\<open>
  if ( this.userMouse.type === 'mousedown' && this.pressEntityObject != intersect_entity ) {
    this.pressEntityObject = intersect_entity;
    if ( this.pressEntityObject.dispatchEvent ) {
      this.pressEntityObject.dispatchEvent( { type: 'pressstart-entity', mouseEvent: event } );
    }
  }
  \<close>
\<close>

definition tap_pressstart_entity :: "heap \<Rightarrow> ref \<Rightarrow> viewer \<Rightarrow> viewer \<times> call list" where
  "tap_pressstart_entity h e v =
     (if userMouse_type v = mousedown \<and> pressEntityObject v \<noteq> Some e then
        (v\<lparr>pressEntityObject := Some e\<rparr>,
         if dispatchEvent (h e) then [Dispatch e pressstart_entity] else [])
      else (v, []))"

text \<open>Lines 613 to 623: the same for \<^verbatim>\<open>intersect\<close> and \<^verbatim>\<open>this.pressObject\<close>.\<close>

definition tap_pressstart :: "heap \<Rightarrow> ref \<Rightarrow> viewer \<Rightarrow> viewer \<times> call list" where
  "tap_pressstart h ob v =
     (if userMouse_type v = mousedown \<and> pressObject v \<noteq> Some ob then
        (v\<lparr>pressObject := Some ob\<rparr>,
         if dispatchEvent (h ob) then [Dispatch ob pressstart] else [])
      else (v, []))"

text \<open>
  Lines 625 to 633:
  \<^verbatim>\<open>
  if ( this.userMouse.type === 'mousemove' ) {
    if ( this.pressEntityObject && this.pressEntityObject.dispatchEvent ) {
      this.pressEntityObject.dispatchEvent( { type: 'pressmove-entity', mouseEvent: event } );
    }
  }
  \<close>
\<close>

definition tap_pressmove_entity :: "heap \<Rightarrow> viewer \<Rightarrow> viewer \<times> call list" where
  "tap_pressmove_entity h v =
     (if userMouse_type v = mousemove then
        (case pressEntityObject v of
           Some pe \<Rightarrow> (v, if dispatchEvent (h pe) then [Dispatch pe pressmove_entity] else [])
         | None \<Rightarrow> (v, []))
      else (v, []))"

text \<open>Lines 635 to 643: the same for \<^verbatim>\<open>this.pressObject\<close>.\<close>

definition tap_pressmove :: "heap \<Rightarrow> viewer \<Rightarrow> viewer \<times> call list" where
  "tap_pressmove h v =
     (if userMouse_type v = mousemove then
        (case pressObject v of
           Some po \<Rightarrow> (v, if dispatchEvent (h po) then [Dispatch po pressmove] else [])
         | None \<Rightarrow> (v, []))
      else (v, []))"

text \<open>
  Lines 587 to 645, the block \<^verbatim>\<open>if ( intersect_entity && intersects.length > 0 )\<close> that
  holds the five steps above: with a non-empty list, \<^verbatim>\<open>intersect\<close> is the object of
  its first entry.
\<close>

definition tap_over_entity ::
  "heap \<Rightarrow> intersection list \<Rightarrow> ref option \<Rightarrow> viewer \<Rightarrow> viewer \<times> call list" where
  "tap_over_entity h intersects intersect_entity v =
     (case intersect_entity of
        None \<Rightarrow> (v, [])
      | Some e \<Rightarrow>
          (case intersects of
             [] \<Rightarrow> (v, [])
           | x # _ \<Rightarrow>
               and_then (and_then (and_then (and_then
                 (tap_hoverenter h e v)
                 (tap_pressstart_entity h e))
                 (tap_pressstart h (object x)))
                 (tap_pressmove_entity h))
                 (tap_pressmove h)))"

text \<open>Lines 572 to 645, the branch of every \<^verbatim>\<open>type\<close> but \<^verbatim>\<open>'click'\<close>.\<close>

definition tap_hover ::
  "heap \<Rightarrow> ref \<Rightarrow> intersection list \<Rightarrow> ref option \<Rightarrow> viewer \<Rightarrow> viewer \<times> call list" where
  "tap_hover h p intersects intersect_entity v =
     and_then (and_then
       (v, [Dispatch p hover])
       (tap_hoverleave h intersects intersect_entity))
       (tap_over_entity h intersects intersect_entity)"

text \<open>Lines 707 to 717.\<close>

definition hideHoveringObject :: "viewer \<Rightarrow> viewer \<times> call list" where
  "hideHoveringObject v =
     (case hoveringObject v of
        Some ho \<Rightarrow> (v\<lparr>hoveringObject := None\<rparr>, [OnHoverEnd ho])
      | None \<Rightarrow> (v, []))"

text \<open>
  Lines 649 to 677:
  \<^verbatim>\<open>
  if ( intersects.length > 0 && intersects[ 0 ].object instanceof PANOLENS.Infospot ) {
    object = intersects[ 0 ].object;
    if ( object.onHover ) {
      this.hoveringObject = object;
      this.container.style.cursor = 'pointer';
      object.onHover( event.clientX, event.clientY );
    }
    if ( type === 'click' && object.onClick ) {
      object.onClick();
      return true;
    }
  } else {
    this.container.style.cursor = 'default';
    this.hideHoveringObject();
  }
  \<close>
  The result is \<open>True\<close> for \<^verbatim>\<open>return true\<close> and \<open>False\<close> for the \<^verbatim>\<open>undefined\<close> of
  falling off the end.
\<close>

definition tap_infospot ::
  "heap \<Rightarrow> event \<Rightarrow> tap_type \<Rightarrow> intersection list \<Rightarrow> viewer \<Rightarrow> viewer \<times> call list \<times> bool" where
  "tap_infospot h ev ty intersects v =
     (let other = (case hideHoveringObject (v\<lparr>cursor := ''default''\<rparr>) of (v', tr) \<Rightarrow> (v', tr, False)) in
      case intersects of
        [] \<Rightarrow> other
      | x # _ \<Rightarrow>
          if Infospot (h (object x)) then
            (let ob = object x;
                 r = (if onHover (h ob)
                      then (v\<lparr>hoveringObject := Some ob, cursor := ''pointer''\<rparr>,
                            [OnHover ob (clientX ev) (clientY ev)])
                      else (v, []))
             in if ty = Click \<and> onClick (h ob)
                then (fst r, snd r @ [OnClick ob], True)
                else (fst r, snd r, False))
          else other)"

text \<open>
  \<^verbatim>\<open>onTap( event, type )\<close>. Without a current panorama it returns at line 500, after the
  ray has been set up (the ray caster is the renderer's and holds no state of the
  viewer).
  \<^verbatim>\<open>
  intersects = this.raycaster.intersectObjects( this.panorama.children, true );
  intersect_entity = this.getConvertedIntersect( intersects );
  intersect = ( intersects.length > 0 ) ? intersects[0].object : intersect;
  \<close>
\<close>

definition onTap :: "heap \<Rightarrow> viewer \<Rightarrow> event \<Rightarrow> tap_type \<Rightarrow> raycast \<Rightarrow> viewer \<times> call list \<times> bool" where
  "onTap h v ev ty rc =
     (case panorama v of
        None \<Rightarrow> (v, [], False)
      | Some p \<Rightarrow>
          (let intersects = on_children rc;
               intersect_entity = getConvertedIntersect h intersects;
               intersect = (case intersects of [] \<Rightarrow> None | x # _ \<Rightarrow> Some (object x));
               r = and_then (and_then (and_then
                     (tap_debug v rc)
                     (tap_pressstop_entity h intersect_entity))
                     (tap_pressstop h intersect))
                     (if ty = Click then tap_click h p intersect_entity intersect
                      else tap_hover h p intersects intersect_entity)
           in case tap_infospot h ev ty intersects (fst r) of
                (v', tr, consumed) \<Rightarrow> (v', snd r @ tr, consumed)))"

section \<open>The pointer handlers\<close>

text \<open>
  \<^verbatim>\<open>( event.clientX ) ? event.clientX : event.touches[0].clientX\<close>: a client coordinate
  that is absent or \<open>0\<close> is falsy, and then the first touch is read; reading it throws
  when the event has no \<^verbatim>\<open>touches\<close> or an empty list.
\<close>

definition down_coord :: "int option \<Rightarrow> touch list option \<Rightarrow> (touch \<Rightarrow> int) \<Rightarrow> error + int" where
  "down_coord c ts sel =
     (let first_touch = (case ts of Some (t # _) \<Rightarrow> Inr (sel t) | _ \<Rightarrow> Inl TypeError) in
      case c of
        Some n \<Rightarrow> if n \<noteq> 0 then Inr n else first_touch
      | None \<Rightarrow> first_touch)"

text \<open>
  \<^verbatim>\<open>
  event.preventDefault();
  this.userMouse.x = ( event.clientX ) ? event.clientX : event.touches[0].clientX;
  this.userMouse.y = ( event.clientY ) ? event.clientY : event.touches[0].clientY;
  this.userMouse.type = 'mousedown';
  this.onTap( event );
  \<close>
\<close>

definition onMouseDown ::
  "heap \<Rightarrow> viewer \<Rightarrow> event \<Rightarrow> raycast \<Rightarrow> viewer \<times> call list \<times> unit completion" where
  "onMouseDown h v ev rc =
     (case down_coord (clientX ev) (touches ev) tclientX of
        Inl e \<Rightarrow> (v, [PreventDefault], Throw e)
      | Inr x \<Rightarrow>
          (let v1 = v\<lparr>userMouse_x := x\<rparr> in
           case down_coord (clientY ev) (touches ev) tclientY of
             Inl e \<Rightarrow> (v1, [PreventDefault], Throw e)
           | Inr y \<Rightarrow>
               (let v2 = v1\<lparr>userMouse_y := y, userMouse_type := mousedown\<rparr> in
                case onTap h v2 ev Undefined rc of
                  (v3, tr, _) \<Rightarrow> (v3, PreventDefault # tr, Return ()))))"

definition onMouseMove :: "heap \<Rightarrow> viewer \<Rightarrow> event \<Rightarrow> raycast \<Rightarrow> viewer \<times> call list \<times> unit completion" where
  "onMouseMove h v ev rc =
     (case onTap h (v\<lparr>userMouse_type := mousemove\<rparr>) ev Undefined rc of
        (v', tr, _) \<Rightarrow> (v', PreventDefault # tr, Return ()))"

text \<open>
  One axis of the comparison of lines 448 to 456,
  \<^verbatim>\<open>this.userMouse.x >= c - tolerance && this.userMouse.x <= c + tolerance\<close>: with an
  undefined \<^verbatim>\<open>c\<close> both sides are comparisons with NaN, which are false.
\<close>

definition near :: "int \<Rightarrow> int option \<Rightarrow> int \<Rightarrow> bool" where
  "near u c tol = (case c of Some n \<Rightarrow> u \<ge> n - tol \<and> u \<le> n + tol | None \<Rightarrow> False)"

text \<open>
  Lines 448 to 457, the value of \<^verbatim>\<open>type\<close>:
  \<^verbatim>\<open>
  type = ( this.userMouse.x >= event.clientX - this.options.clickTolerance
        && this.userMouse.x <= event.clientX + this.options.clickTolerance
        && this.userMouse.y >= event.clientY - this.options.clickTolerance
        && this.userMouse.y <= event.clientY + this.options.clickTolerance )
      || ( event.changedTouches
        && this.userMouse.x >= event.changedTouches[0].clientX - this.options.clickTolerance
        && this.userMouse.x <= event.changedTouches[0].clientX + this.options.clickTolerance
        && this.userMouse.y >= event.changedTouches[0].clientY - this.options.clickTolerance
        && this.userMouse.y <= event.changedTouches[0].clientY + this.options.clickTolerance )
    ? 'click' : undefined;
  \<close>
  Reading the first entry of an empty \<^verbatim>\<open>changedTouches\<close> throws.
\<close>

definition click_type :: "viewer \<Rightarrow> event \<Rightarrow> error + tap_type" where
  "click_type v ev =
     (let tol = clickTolerance (options v) in
      if near (userMouse_x v) (clientX ev) tol \<and> near (userMouse_y v) (clientY ev) tol
      then Inr Click
      else (case changedTouches ev of
              None \<Rightarrow> Inr Undefined
            | Some [] \<Rightarrow> Inl TypeError
            | Some (t # _) \<Rightarrow>
                if near (userMouse_x v) (Some (tclientX t)) tol
                   \<and> near (userMouse_y v) (Some (tclientY t)) tol
                then Inr Click else Inr Undefined))"

text \<open>
  \<^verbatim>\<open>onMouseUp\<close>, lines 442 to 489. After the classification:
  \<^verbatim>\<open>
  // Event should happen on canvas
  if ( event && event.target && !event.target.classList.contains( 'panolens-canvas' ) ) { return; }
  event.preventDefault();
  if ( event.changedTouches && event.changedTouches.length === 1 ) {
    onTarget = this.onTap( { clientX : event.changedTouches[0].clientX,
                             clientY : event.changedTouches[0].clientY }, type );
  } else {
    onTarget = this.onTap( event, type );
  }
  this.userMouse.type = 'none';
  if ( onTarget ) { return; }
  if ( type === 'click' ) {
    this.options.autoHideInfospot && this.panorama && this.panorama.toggleChildrenVisibility();
    this.options.autoHideControlBar && toggleControlBar();
  }
  \<close>
  No \<^verbatim>\<open>toggleControlBar\<close> is in scope of the handler (the function of that name is a
  property of the prototype), so the call at line 485 throws a ReferenceError.
  \<open>off_canvas\<close> is the test of line 460, \<open>release_event\<close> the event handed to
  \<^verbatim>\<open>onTap\<close> (lines 464 to 472).
\<close>

definition off_canvas :: "event \<Rightarrow> bool" where
  "off_canvas ev =
     (case target ev of Some classList \<Rightarrow> ''panolens-canvas'' \<notin> set classList | None \<Rightarrow> False)"

definition release_event :: "event \<Rightarrow> event" where
  "release_event ev =
     (case changedTouches ev of
        Some [t] \<Rightarrow> \<lparr>clientX = Some (tclientX t), clientY = Some (tclientY t),
                     touches = None, changedTouches = None, target = None\<rparr>
      | _ \<Rightarrow> ev)"

definition onMouseUp :: "heap \<Rightarrow> viewer \<Rightarrow> event \<Rightarrow> raycast \<Rightarrow> viewer \<times> call list \<times> unit completion" where
  "onMouseUp h v ev rc =
     (let v1 = v\<lparr>userMouse_type := mouseup\<rparr> in
      case click_type v1 ev of
        Inl e \<Rightarrow> (v1, [], Throw e)
      | Inr ty \<Rightarrow>
          if off_canvas ev then (v1, [], Return ())
          else
            (case onTap h v1 (release_event ev) ty rc of
               (v2, tr, onTarget) \<Rightarrow>
                 (let v3 = v2\<lparr>userMouse_type := none\<rparr> in
                  if onTarget then (v3, PreventDefault # tr, Return ())
                  else if ty = Click then
                    (let tr' = PreventDefault # tr
                               @ (if autoHideInfospot (options v3)
                                  then (case panorama v3 of
                                          Some p \<Rightarrow> [ToggleChildrenVisibility p]
                                        | None \<Rightarrow> [])
                                  else [])
                     in if autoHideControlBar (options v3)
                        then (v3, tr', Throw ReferenceError)
                        else (v3, tr', Return ()))
                  else (v3, PreventDefault # tr, Return ()))))"

section \<open>Runs of the viewer\<close>

text \<open>
  Whatever the host calls on the viewer, one call at a time (handlers run to completion
  on one thread). A handler that throws leaves the state it reached; the host goes on
  with the next call.
\<close>

datatype action =
  MouseDown event raycast
  | MouseMove event raycast
  | MouseUp event raycast
  | KeyDown key_event
  | KeyUp key_event
  | SetPanorama ref
  | SetCameraControl
  | EnableControl int
  | ToggleNextControl
  | ToggleVR
  | AddUpdateCallback "nat option"
  | Render

definition drop_completion :: "viewer \<times> call list \<times> 'a \<Rightarrow> viewer \<times> call list" where
  "drop_completion r = (fst r, fst (snd r))"

fun step :: "heap \<Rightarrow> viewer \<Rightarrow> action \<Rightarrow> viewer \<times> call list" where
  "step h v (MouseDown ev rc) = drop_completion (onMouseDown h v ev rc)"
| "step h v (MouseMove ev rc) = drop_completion (onMouseMove h v ev rc)"
| "step h v (MouseUp ev rc) = drop_completion (onMouseUp h v ev rc)"
| "step h v (KeyDown ev) = (onKeyDown v ev, [])"
| "step h v (KeyUp ev) = (onKeyUp v ev, [])"
| "step h v (SetPanorama pano) = setPanorama h v pano"
| "step h v SetCameraControl = drop_completion (setCameraControl h v)"
| "step h v (EnableControl i) = drop_completion (enableControl h v i)"
| "step h v ToggleNextControl = drop_completion (toggleNextControl h v)"
| "step h v ToggleVR = toggleVR v"
| "step h v (AddUpdateCallback fn) = (addUpdateCallback v fn, [])"
| "step h v Render = render v"

fun run :: "heap \<Rightarrow> viewer \<Rightarrow> action list \<Rightarrow> viewer \<times> call list" where
  "run h v [] = (v, [])"
| "run h v (a # as) = and_then (step h v a) (\<lambda>v'. run h v' as)"

section \<open>Notions the statements use\<close>

text \<open>
  The objects an event of type \<open>t\<close> was dispatched on, in the order of the dispatches.
\<close>

fun targets :: "event_type \<Rightarrow> call list \<Rightarrow> ref list" where
  "targets t [] = []"
| "targets t (Dispatch r t' # cs) = (if t' = t then r # targets t cs else targets t cs)"
| "targets t (_ # cs) = targets t cs"

text \<open>
  The state \<^verbatim>\<open>onTap\<close> has reached at line 649, before it looks for an infospot, in
  closed form (lemma \<open>fst_onTap\<close> below proves it is that state).
\<close>

definition after_press_hover :: "heap \<Rightarrow> viewer \<Rightarrow> tap_type \<Rightarrow> intersection list \<Rightarrow> viewer" where
  "after_press_hover h v ty xs =
       v\<lparr>hoverObject := (if ty = Click then hoverObject v else getConvertedIntersect h xs),
          pressEntityObject :=
            (if userMouse_type v = mouseup then None
             else if ty \<noteq> Click \<and> userMouse_type v = mousedown
                     \<and> getConvertedIntersect h xs \<noteq> None
             then getConvertedIntersect h xs
             else pressEntityObject v),
          pressObject :=
            (if userMouse_type v = mouseup then None
             else if ty \<noteq> Click \<and> userMouse_type v = mousedown
                     \<and> getConvertedIntersect h xs \<noteq> None
             then Some (object (hd xs))
             else pressObject v)\<rparr>"

text \<open>
  A run of hover-type updates: each is a call \<^verbatim>\<open>onTap( event )\<close> or
  \<^verbatim>\<open>onTap( event, undefined )\<close> made by a handler that has just stored its own
  \<^verbatim>\<open>userMouse.type\<close> (a down, a move, or an up that is not a click).
\<close>

fun hover_updates :: "heap \<Rightarrow> viewer \<Rightarrow> (mouse_type \<times> event \<times> raycast) list \<Rightarrow> viewer \<times> call list" where
  "hover_updates h v [] = (v, [])"
| "hover_updates h v (u # us) =
     (let r = onTap h (v\<lparr>userMouse_type := fst u\<rparr>) (fst (snd u)) Undefined (snd (snd u))
      in and_then (fst r, fst (snd r)) (\<lambda>v'. hover_updates h v' us))"

text \<open>The entity the hit test of an update resolves.\<close>

definition resolved :: "heap \<Rightarrow> mouse_type \<times> event \<times> raycast \<Rightarrow> ref option" where
  "resolved h u = getConvertedIntersect h (on_children (snd (snd u)))"

text \<open>Neither the hover entity nor the press entity is a pass-through object.\<close>

definition refs_opaque :: "heap \<Rightarrow> viewer \<Rightarrow> bool" where
  "refs_opaque h v =
     ((case hoverObject v of None \<Rightarrow> True | Some r \<Rightarrow> \<not> passThrough (h r))
      \<and> (case pressEntityObject v of None \<Rightarrow> True | Some r \<Rightarrow> \<not> passThrough (h r)))"




definition is_pointer :: "action \<Rightarrow> bool" where
  "is_pointer a =
     (case a of MouseDown _ _ \<Rightarrow> True | MouseMove _ _ \<Rightarrow> True | MouseUp _ _ \<Rightarrow> True | _ \<Rightarrow> False)"


subsection \<open>A small scene and a viewer, for the concrete instances\<close>

text \<open>
  Object 10 is a panorama at \<open>(5, 0, 0)\<close>, object 6 a second panorama. Object 2 is a
  primitive of entity 3; object 4 is a pass-through marker; object 5 is a primitive
  with no entity; object 7 is a primitive of the pass-through entity 8.
\<close>

definition origin :: vec3 where
  "origin = \<lparr>vx = 0, vy = 0, vz = 0\<rparr>"

definition plain :: obj where
  "plain = \<lparr>otype = ''Mesh'', position = origin, passThrough = False, entity = None,
            dispatchEvent = True, Infospot = False, onHover = False, onClick = False\<rparr>"

definition scene :: heap where
  "scene r =
     (if r = 10 then plain\<lparr>otype := ''panorama'', position := \<lparr>vx = 5, vy = 0, vz = 0\<rparr>\<rparr>
      else if r = 2 then plain\<lparr>entity := Some 3\<rparr>
      else if r = 4 then plain\<lparr>passThrough := True\<rparr>
      else if r = 6 then plain\<lparr>otype := ''panorama''\<rparr>
      else if r = 7 then plain\<lparr>entity := Some 8\<rparr>
      else if r = 8 then plain\<lparr>passThrough := True\<rparr>
      else plain)"

definition hit :: "ref \<Rightarrow> intersection" where
  "hit r = \<lparr>object = r, point = origin\<rparr>"

definition cast :: "ref list \<Rightarrow> raycast" where
  "cast rs = \<lparr>on_panorama = [], on_children = map hit rs\<rparr>"

definition mouse_ev :: "int \<Rightarrow> int \<Rightarrow> string list \<Rightarrow> event" where
  "mouse_ev x y classList =
     \<lparr>clientX = Some x, clientY = Some y, touches = None, changedTouches = None,
      target = Some classList\<rparr>"

definition orbit_control :: control_obj where
  "orbit_control = \<lparr>cname = ''orbit'', enabled = True, ctarget = origin\<rparr>"

definition device_control :: control_obj where
  "device_control = \<lparr>cname = ''device-orientation'', enabled = False, ctarget = origin\<rparr>"

text \<open>
  A viewer as the constructor leaves it for default options: no panorama, no hover or
  press reference, the orbit control active.
\<close>

definition viewer0 :: viewer where
  "viewer0 =
     \<lparr>options = Viewer_options \<lparr>arg_controlBar = None, arg_autoHideControlBar = None,
                                 arg_autoHideInfospot = None, arg_horizontalView = None,
                                 arg_clickTolerance = None\<rparr>,
      userMouse_x = 0, userMouse_y = 0, userMouse_type = type_undefined,
      panorama = None, hoverObject = None, hoveringObject = None,
      pressEntityObject = None, pressObject = None,
      DEBUG = False, cursor = [], camera_position = origin,
      controls = [20, 21], control = Some 20, OrbitControls = 20,
      control_objs = (\<lambda>c. if c = 20 then orbit_control else device_control),
      updateCallbacks = [], VRManager_mode = NORMAL, VRManager_Mode = None\<rparr>"

text \<open>The same viewer showing panorama 10, with entity 3 pressed through its primitive 2.\<close>

definition pressed_viewer :: viewer where
  "pressed_viewer =
     viewer0\<lparr>panorama := Some 10, userMouse_x := 100, userMouse_y := 100,
             userMouse_type := mousedown, hoverObject := Some 3,
             pressEntityObject := Some 3, pressObject := Some 2\<rparr>"

text \<open>The viewer with two per-frame callbacks, after the manager has entered the VR mode.\<close>

definition vr_viewer :: viewer where
  "vr_viewer = viewer0\<lparr>updateCallbacks := [7, 9], VRManager_mode := VR\<rparr>"

text \<open>The class list of the canvas, touch events on it, and the viewer after a press at \<open>(100, 100)\<close>.\<close>

definition canvas :: "string list" where
  "canvas = [''panolens-canvas'']"




text \<open>
  The viewer with the option \<^verbatim>\<open>autoHideControlBar\<close> set, the viewer showing panorama 10,
  a move over a list of objects, and a release on the canvas at \<open>(0, 0)\<close>.
\<close>

definition autohide_viewer :: viewer where
  "autohide_viewer = viewer0\<lparr>options := (options viewer0)\<lparr>autoHideControlBar := True\<rparr>\<rparr>"

definition show_viewer :: viewer where
  "show_viewer = viewer0\<lparr>panorama := Some 10\<rparr>"

definition move_over :: "ref list \<Rightarrow> mouse_type \<times> event \<times> raycast" where
  "move_over rs = (mousemove, mouse_ev 300 200 canvas, cast rs)"

definition canvas_click :: action where
  "canvas_click = MouseUp (mouse_ev 0 0 canvas) (cast [2])"

section \<open>Lemmas on the steps of onTap\<close>

declare getConvertedIntersect_loop.simps [simp del]

lemma targets_append [simp]: "targets t (a @ b) = targets t a @ targets t b"
  by (induction t a rule: targets.induct) simp_all

lemma fst_and_then [simp]: "fst (and_then r f) = fst (f (fst r))"
  by (simp add: and_then_def split: prod.splits)

lemma snd_and_then [simp]: "snd (and_then r f) = snd r @ snd (f (fst r))"
  by (simp add: and_then_def split: prod.splits)

lemma fst_tap_debug [simp]: "fst (tap_debug v rc) = v"
  and targets_tap_debug [simp]: "targets t (snd (tap_debug v rc)) = []"
  by (simp_all add: tap_debug_def)

lemma fst_tap_pressstop_entity [simp]:
  "fst (tap_pressstop_entity h ie v) =
     v\<lparr>pressEntityObject := (if userMouse_type v = mouseup then None else pressEntityObject v)\<rparr>"
  by (simp add: tap_pressstop_entity_def)

lemma targets_tap_pressstop_entity [simp]:
  "t \<noteq> pressstop_entity \<Longrightarrow> targets t (snd (tap_pressstop_entity h ie v)) = []"
  by (simp add: tap_pressstop_entity_def split: option.splits)

lemma fst_tap_pressstop [simp]:
  "fst (tap_pressstop h it v) =
     v\<lparr>pressObject := (if userMouse_type v = mouseup then None else pressObject v)\<rparr>"
  by (simp add: tap_pressstop_def)

lemma targets_tap_pressstop [simp]:
  "t \<noteq> pressstop \<Longrightarrow> targets t (snd (tap_pressstop h it v)) = []"
  by (simp add: tap_pressstop_def split: option.splits)

lemma fst_tap_click [simp]: "fst (tap_click h p ie it v) = v"
  by (simp add: tap_click_def)

lemma targets_tap_click [simp]:
  "t \<noteq> click \<Longrightarrow> t \<noteq> click_entity \<Longrightarrow> targets t (snd (tap_click h p ie it v)) = []"
  by (simp add: tap_click_def split: option.splits)

lemma fst_tap_hoverleave [simp]:
  "fst (tap_hoverleave h xs ie v) =
     v\<lparr>hoverObject := (if xs = [] \<or> hoverObject v \<noteq> ie then None else hoverObject v)\<rparr>"
  by (auto simp add: tap_hoverleave_def split: option.splits)

lemma targets_tap_hoverleave [simp]:
  "targets t (snd (tap_hoverleave h xs ie v)) =
     (case hoverObject v of
        Some ho \<Rightarrow> if t = hoverleave \<and> dispatchEvent (h ho) \<and> (xs = [] \<or> Some ho \<noteq> ie) then [ho] else []
      | None \<Rightarrow> [])"
  by (auto simp add: tap_hoverleave_def split: option.splits)

lemma fst_tap_hoverenter [simp]: "fst (tap_hoverenter h e v) = v\<lparr>hoverObject := Some e\<rparr>"
  by (simp add: tap_hoverenter_def)

lemma targets_tap_hoverenter [simp]:
  "targets t (snd (tap_hoverenter h e v)) =
     (if t = hoverenter \<and> dispatchEvent (h e) \<and> hoverObject v \<noteq> Some e then [e] else [])"
  by (simp add: tap_hoverenter_def)

lemma fst_tap_pressstart_entity [simp]:
  "fst (tap_pressstart_entity h e v) =
     v\<lparr>pressEntityObject := (if userMouse_type v = mousedown then Some e else pressEntityObject v)\<rparr>"
  by (simp add: tap_pressstart_entity_def)

lemma targets_tap_pressstart_entity [simp]:
  "t \<noteq> pressstart_entity \<Longrightarrow> targets t (snd (tap_pressstart_entity h e v)) = []"
  by (simp add: tap_pressstart_entity_def)

lemma fst_tap_pressstart [simp]:
  "fst (tap_pressstart h ob v) =
     v\<lparr>pressObject := (if userMouse_type v = mousedown then Some ob else pressObject v)\<rparr>"
  by (simp add: tap_pressstart_def)

lemma targets_tap_pressstart [simp]:
  "t \<noteq> pressstart \<Longrightarrow> targets t (snd (tap_pressstart h ob v)) = []"
  by (simp add: tap_pressstart_def)

lemma fst_tap_pressmove_entity [simp]: "fst (tap_pressmove_entity h v) = v"
  by (simp add: tap_pressmove_entity_def split: option.splits)

lemma targets_tap_pressmove_entity [simp]:
  "targets t (snd (tap_pressmove_entity h v)) =
     (case pressEntityObject v of
        Some pe \<Rightarrow> if t = pressmove_entity \<and> userMouse_type v = mousemove \<and> dispatchEvent (h pe) then [pe] else []
      | None \<Rightarrow> [])"
  by (simp add: tap_pressmove_entity_def split: option.splits)

lemma fst_tap_pressmove [simp]: "fst (tap_pressmove h v) = v"
  by (simp add: tap_pressmove_def split: option.splits)

lemma targets_tap_pressmove [simp]:
  "targets t (snd (tap_pressmove h v)) =
     (case pressObject v of
        Some po \<Rightarrow> if t = pressmove \<and> userMouse_type v = mousemove \<and> dispatchEvent (h po) then [po] else []
      | None \<Rightarrow> [])"
  by (simp add: tap_pressmove_def split: option.splits)

lemma fst_tap_over_entity:
  "fst (tap_over_entity h xs ie v) =
     (case ie of
        None \<Rightarrow> v
      | Some e \<Rightarrow>
          (case xs of
             [] \<Rightarrow> v
           | x # _ \<Rightarrow>
               v\<lparr>hoverObject := Some e,
                 pressEntityObject := (if userMouse_type v = mousedown then Some e else pressEntityObject v),
                 pressObject := (if userMouse_type v = mousedown then Some (object x) else pressObject v)\<rparr>))"
  by (simp add: tap_over_entity_def split: option.splits list.splits)

lemma fst_hideHoveringObject [simp]: "fst (hideHoveringObject v) = v\<lparr>hoveringObject := None\<rparr>"
  by (simp add: hideHoveringObject_def split: option.splits)

lemma targets_hideHoveringObject [simp]: "targets t (snd (hideHoveringObject v)) = []"
  by (simp add: hideHoveringObject_def split: option.splits)

lemma fst_tap_infospot:
  "fst (tap_infospot h ev ty xs v) =
     v\<lparr>hoveringObject :=
          (case xs of
             [] \<Rightarrow> None
           | x # _ \<Rightarrow>
               if Infospot (h (object x))
               then (if onHover (h (object x)) then Some (object x) else hoveringObject v)
               else None),
        cursor :=
          (case xs of
             [] \<Rightarrow> ''default''
           | x # _ \<Rightarrow>
               if Infospot (h (object x))
               then (if onHover (h (object x)) then ''pointer'' else cursor v)
               else ''default'')\<rparr>"
  by (simp add: tap_infospot_def Let_def hideHoveringObject_def split: list.splits prod.splits option.splits)

lemma targets_tap_infospot [simp]:
  "targets t (fst (snd (tap_infospot h ev ty xs v))) = []"
  by (simp add: tap_infospot_def Let_def hideHoveringObject_def split: list.splits prod.splits option.splits)

lemma getConvertedIntersect_Nil [simp]: "getConvertedIntersect h [] = None"
  by (simp add: getConvertedIntersect_def getConvertedIntersect_loop.simps)

lemma onTap_no_panorama: "panorama v = None \<Longrightarrow> onTap h v ev ty rc = (v, [], False)"
  by (simp add: onTap_def)

lemma onTap_eq:
  "onTap h v ev ty rc =
     (case panorama v of
        None \<Rightarrow> (v, [], False)
      | Some p \<Rightarrow>
          (let intersects = on_children rc;
               intersect_entity = getConvertedIntersect h intersects;
               intersect = (case intersects of [] \<Rightarrow> None | x # _ \<Rightarrow> Some (object x));
               r = and_then (and_then (and_then
                     (tap_debug v rc)
                     (tap_pressstop_entity h intersect_entity))
                     (tap_pressstop h intersect))
                     (if ty = Click then tap_click h p intersect_entity intersect
                      else tap_hover h p intersects intersect_entity);
               s = tap_infospot h ev ty intersects (fst r)
           in (fst s, snd r @ fst (snd s), snd (snd s))))"
  by (simp add: onTap_def Let_def split: prod.splits option.splits)

lemma fst_onTap:
  "panorama v = Some p \<Longrightarrow>
   fst (onTap h v ev ty rc) =
     fst (tap_infospot h ev ty (on_children rc) (after_press_hover h v ty (on_children rc)))"
  apply (cases "on_children rc")
   apply (simp_all add: onTap_eq Let_def tap_hover_def fst_tap_over_entity after_press_hover_def split: option.splits)
  apply (auto intro!: arg_cong[where f="\<lambda>v. fst (tap_infospot _ _ _ _ v)"])
  done

lemma resolve_nonempty: "getConvertedIntersect h xs = Some e \<Longrightarrow> xs \<noteq> []"
  by (cases xs) simp_all

lemma trace_onTap_Undefined:
  "panorama v = Some p \<Longrightarrow>
   targets t (fst (snd (onTap h v ev Undefined rc))) =
     targets t
      (snd (tap_debug v rc)
       @ snd (tap_pressstop_entity h (getConvertedIntersect h (on_children rc)) v)
       @ snd (tap_pressstop h (case on_children rc of [] \<Rightarrow> None | x # _ \<Rightarrow> Some (object x))
            (v\<lparr>pressEntityObject := (if userMouse_type v = mouseup then None else pressEntityObject v)\<rparr>))
       @ [Dispatch p hover]
       @ snd (tap_hoverleave h (on_children rc) (getConvertedIntersect h (on_children rc))
            (v\<lparr>pressEntityObject := (if userMouse_type v = mouseup then None else pressEntityObject v),
               pressObject := (if userMouse_type v = mouseup then None else pressObject v)\<rparr>))
       @ snd (tap_over_entity h (on_children rc) (getConvertedIntersect h (on_children rc))
            (v\<lparr>pressEntityObject := (if userMouse_type v = mouseup then None else pressEntityObject v),
               pressObject := (if userMouse_type v = mouseup then None else pressObject v),
               hoverObject := (if on_children rc = [] \<or> hoverObject v \<noteq> getConvertedIntersect h (on_children rc)
                               then None else hoverObject v)\<rparr>)))"
  by (simp add: onTap_eq Let_def tap_hover_def del: targets_tap_hoverleave)

lemma targets_tap_over_entity_hoverenter:
  "targets hoverenter (snd (tap_over_entity h xs ie v)) =
     (case ie of
        Some e \<Rightarrow> if xs \<noteq> [] \<and> dispatchEvent (h e) \<and> hoverObject v \<noteq> Some e then [e] else []
      | None \<Rightarrow> [])"
  by (simp add: tap_over_entity_def split: option.splits list.splits)

lemma targets_tap_over_entity_hoverleave:
  "targets hoverleave (snd (tap_over_entity h xs ie v)) = []"
  by (simp add: tap_over_entity_def split: option.splits list.splits)

lemma targets_tap_over_entity_pressmove_entity:
  "userMouse_type v = mousemove \<Longrightarrow>
   targets pressmove_entity (snd (tap_over_entity h xs ie v)) =
     (case pressEntityObject v of
        Some pe \<Rightarrow> if ie \<noteq> None \<and> xs \<noteq> [] \<and> dispatchEvent (h pe) then [pe] else []
      | None \<Rightarrow> [])"
  by (simp add: tap_over_entity_def split: option.splits list.splits)

lemma targets_tap_over_entity_pressmove:
  "userMouse_type v = mousemove \<Longrightarrow>
   targets pressmove (snd (tap_over_entity h xs ie v)) =
     (case pressObject v of
        Some po \<Rightarrow> if ie \<noteq> None \<and> xs \<noteq> [] \<and> dispatchEvent (h po) then [po] else []
      | None \<Rightarrow> [])"
  by (simp add: tap_over_entity_def split: option.splits list.splits)

lemma hoverleave_onTap:
  "panorama v = Some p \<Longrightarrow>
   targets hoverleave (fst (snd (onTap h v ev Undefined rc))) =
     (case hoverObject v of
        Some ho \<Rightarrow>
          if dispatchEvent (h ho)
             \<and> ((length (on_children rc) > 0 \<and> Some ho \<noteq> getConvertedIntersect h (on_children rc))
                 \<or> length (on_children rc) = 0)
          then [ho] else []
      | None \<Rightarrow> [])"
  by (auto simp add: trace_onTap_Undefined targets_tap_over_entity_hoverleave split: option.splits)

lemma hoverenter_onTap:
  "panorama v = Some p \<Longrightarrow>
   targets hoverenter (fst (snd (onTap h v ev Undefined rc))) =
     (case getConvertedIntersect h (on_children rc) of
        Some e \<Rightarrow> if dispatchEvent (h e) \<and> hoverObject v \<noteq> Some e then [e] else []
      | None \<Rightarrow> [])"
  by (auto simp add: trace_onTap_Undefined targets_tap_over_entity_hoverenter 
       split: option.splits dest: resolve_nonempty)

lemma pressmove_entity_onTap:
  "panorama v = Some p \<Longrightarrow> userMouse_type v = mousemove \<Longrightarrow>
   targets pressmove_entity (fst (snd (onTap h v ev Undefined rc))) =
     (case pressEntityObject v of
        Some pe \<Rightarrow> if dispatchEvent (h pe) \<and> getConvertedIntersect h (on_children rc) \<noteq> None then [pe] else []
      | None \<Rightarrow> [])"
  by (auto simp add: trace_onTap_Undefined targets_tap_over_entity_pressmove_entity 
       split: option.splits dest: resolve_nonempty)

lemma pressmove_onTap:
  "panorama v = Some p \<Longrightarrow> userMouse_type v = mousemove \<Longrightarrow>
   targets pressmove (fst (snd (onTap h v ev Undefined rc))) =
     (case pressObject v of
        Some po \<Rightarrow> if dispatchEvent (h po) \<and> getConvertedIntersect h (on_children rc) \<noteq> None then [po] else []
      | None \<Rightarrow> [])"
  by (auto simp add: trace_onTap_Undefined targets_tap_over_entity_pressmove 
       split: option.splits dest: resolve_nonempty)

section \<open>The resolver\<close>

lemma resolveEntity_Cons:
  "resolveEntity h (x # xs) = (if skipped h x then resolveEntity h xs else Some (target_of h x))"
  by (simp add: resolveEntity_def)

lemma getConvertedIntersect_loop_drop:
  "getConvertedIntersect_loop h xs i = resolveEntity h (drop i xs)"
proof (induction h xs i rule: getConvertedIntersect_loop.induct)
  case (1 h xs i)
  show ?case
  proof (cases "i < length xs")
    case False
    then show ?thesis
      by (simp add: getConvertedIntersect_loop.simps [of h xs i] resolveEntity_def)
  next
    case True
    then have d: "drop i xs = xs ! i # drop (Suc i) xs"
      by (simp add: Cons_nth_drop_Suc)
    show ?thesis
      using True "1.IH"
      by (simp add: getConvertedIntersect_loop.simps [of h xs i] d resolveEntity_Cons
          skipped_def target_of_def Let_def split: option.splits)
  qed
qed

lemma getConvertedIntersect_resolveEntity:
  "getConvertedIntersect h xs = resolveEntity h xs"
  by (simp add: getConvertedIntersect_def getConvertedIntersect_loop_drop)

lemma resolveEntity_opaque:
  "resolveEntity h xs = Some t \<Longrightarrow> \<not> passThrough (h t)"
  by (induction xs) (auto simp: resolveEntity_Cons resolveEntity_def skipped_def target_of_def split: if_splits option.splits)

section \<open>Lemmas on the small scene\<close>

lemma viewer0_fields [simp]:
  "panorama viewer0 = None" "control viewer0 = Some 20" "controls viewer0 = [20, 21]"
  "OrbitControls viewer0 = 20" "control_objs viewer0 20 = orbit_control"
  "control_objs viewer0 21 = device_control" "camera_position viewer0 = origin"
  "hoverObject viewer0 = None" "hoveringObject viewer0 = None"
  "pressEntityObject viewer0 = None" "pressObject viewer0 = None"
  "userMouse_type viewer0 = type_undefined" "DEBUG viewer0 = False"
  "updateCallbacks viewer0 = []" "VRManager_Mode viewer0 = None"
  "clickTolerance (options viewer0) = 10" "autoHideInfospot (options viewer0) = True"
  "autoHideControlBar (options viewer0) = False"
  by (simp_all add: viewer0_def Viewer_options_def)

lemma scene_fields [simp]:
  "otype (scene 10) = ''panorama''" "position (scene 10) = \<lparr>vx = 5, vy = 0, vz = 0\<rparr>"
  "dispatchEvent (scene r) = True" "Infospot (scene r) = False"
  "passThrough (scene r) = (r = 4 \<or> r = 8)"
  "entity (scene r) = (if r = 2 then Some 3 else if r = 7 then Some 8 else None)"
  by (simp_all add: scene_def plain_def)

section \<open>Lemmas on enableControl\<close>

lemma enableControl_index:
  "controls v \<noteq> [] \<Longrightarrow>
   nat (if 0 \<le> index \<and> index < int (length (controls v)) then index else 0) < length (controls v)"
  by (cases "0 \<le> index \<and> index < int (length (controls v))") (simp_all add: nat_less_iff)

lemma enableControl_pose_state:
  "panorama v = Some p \<Longrightarrow>
   enableControl_pose h v c =
     (v\<lparr>camera_position :=
          (if cname (control_objs v c) = ''orbit''
           then (position (h p))\<lparr>vz := vz (position (h p)) + 1\<rparr>
           else if cname (control_objs v c) = ''device-orientation'' then position (h p)
           else camera_position v)\<rparr>, [], Return ())"
  by (simp add: enableControl_pose_def)

lemma enableControl_state:
  assumes "control v = Some c0" and "controls v \<noteq> []" and "panorama v = Some p"
    and "c = controls v ! nat (if 0 \<le> index \<and> index < int (length (controls v)) then index else 0)"
  shows "enableControl h v index =
     (v\<lparr>control := Some c,
        control_objs :=
          ((control_objs v)(c0 := (control_objs v c0)\<lparr>enabled := False\<rparr>))
            (c := (((control_objs v)(c0 := (control_objs v c0)\<lparr>enabled := False\<rparr>)) c)\<lparr>enabled := True\<rparr>),
        camera_position :=
          (if cname (control_objs v c) = ''orbit''
           then (position (h p))\<lparr>vz := vz (position (h p)) + 1\<rparr>
           else if cname (control_objs v c) = ''device-orientation'' then position (h p)
           else camera_position v)\<rparr>, [], Return ())"
proof -
  let ?i = "if 0 \<le> index \<and> index < int (length (controls v)) then index else 0"
  let ?objs1 = "(control_objs v)(c0 := (control_objs v c0)\<lparr>enabled := False\<rparr>)"
  let ?v3 = "v\<lparr>control := Some c, control_objs := ?objs1(c := (?objs1 c)\<lparr>enabled := True\<rparr>)\<rparr>"
  have lt: "nat ?i < length (controls v)"
    using assms(2) by (rule enableControl_index)
  have e: "enableControl h v index = enableControl_pose h ?v3 c"
    unfolding enableControl_def Let_def assms(4) [symmetric]
    using assms(1) lt by (simp add: assms(4) [symmetric])
  have p3: "panorama ?v3 = Some p"
    using assms(3) by simp
  show ?thesis
    unfolding e enableControl_pose_state [OF p3] by simp
qed

section \<open>Entity resolution\<close>

text \<open>
  Claim C2. For every intersection list, nearest first, \<^verbatim>\<open>getConvertedIntersect\<close> returns
  the target of the first intersection that is not skipped: an intersection is skipped
  when its primitive is pass-through or maps to a pass-through entity, and the target
  is the entity of the primitive when it has one, the primitive itself otherwise
  (\<open>resolveEntity\<close>). On the empty list and on a list whose intersections are all
  skipped it returns nothing. When the nearest primitive is pass-through and the second
  is not and maps to no entity, it returns the second primitive.
\<close>

theorem getConvertedIntersect_first_not_skipped:
  "getConvertedIntersect h xs = resolveEntity h xs
   \<and> getConvertedIntersect h [] = None
   \<and> ((\<forall>x \<in> set xs. skipped h x) \<longrightarrow> getConvertedIntersect h xs = None)
   \<and> (passThrough (h (object x1)) \<and> \<not> passThrough (h (object x2)) \<and> entity (h (object x2)) = None
        \<longrightarrow> getConvertedIntersect h (x1 # x2 # rest) = Some (object x2))"
proof -
  have eq: "getConvertedIntersect h xs = resolveEntity h xs"
    by (rule getConvertedIntersect_resolveEntity)
  have nil: "getConvertedIntersect h [] = None"
    by simp
  have all: "(\<forall>x \<in> set xs. skipped h x) \<longrightarrow> getConvertedIntersect h xs = None"
    by (simp add: getConvertedIntersect_resolveEntity resolveEntity_def find_None_iff)
  have second: "passThrough (h (object x1)) \<and> \<not> passThrough (h (object x2))
       \<and> entity (h (object x2)) = None
     \<longrightarrow> getConvertedIntersect h (x1 # x2 # rest) = Some (object x2)"
    by (simp add: getConvertedIntersect_resolveEntity resolveEntity_Cons skipped_def target_of_def)
  from eq nil all second show ?thesis
    by (intro conjI)
qed

text \<open>
  In the small scene: the marker 4 and the primitive 7 of a pass-through entity are both
  skipped; behind the marker 4 the primitive 5, which has no entity, is the target; and
  behind 4 and 7 the primitive 2 resolves to its entity 3.
\<close>

theorem getConvertedIntersect_first_not_skipped_witness:
  "skipped scene (hit 4) \<and> skipped scene (hit 7)
   \<and> getConvertedIntersect scene [hit 4, hit 7] = None
   \<and> passThrough (scene (object (hit 4))) \<and> \<not> passThrough (scene (object (hit 5)))
   \<and> entity (scene (object (hit 5))) = None
   \<and> getConvertedIntersect scene [hit 4, hit 5, hit 2] = Some 5
   \<and> resolveEntity scene [hit 4, hit 7, hit 2, hit 5] = Some 3"
  using getConvertedIntersect_first_not_skipped [of scene "[hit 4, hit 7]" "hit 4" "hit 5" "[hit 2]"]
  by (simp add: scene_def hit_def plain_def skipped_def resolveEntity_def target_of_def)

section \<open>Scene transition\<close>

text \<open>
  Claim C3. A call of \<^verbatim>\<open>setPanorama\<close> with an object whose type is \<^verbatim>\<open>'panorama'\<close> calls
  \<^verbatim>\<open>onLeave\<close> of the current panorama, when there is one, and then \<^verbatim>\<open>onEnter\<close> of the
  new one, and nothing else, and the new one is current afterwards; with no current
  panorama only \<^verbatim>\<open>onEnter\<close> of the new one is called. A call with any other object
  changes nothing and calls nothing. Setting \<open>p1\<close> and then \<open>p2\<close> from a viewer with no
  panorama calls \<^verbatim>\<open>p1.onEnter\<close>, \<^verbatim>\<open>p1.onLeave\<close>, \<^verbatim>\<open>p2.onEnter\<close> in this order.
\<close>

theorem setPanorama_leave_before_enter:
  "(otype (h p2) = ''panorama'' \<longrightarrow>
      setPanorama h v p2 =
        (v\<lparr>panorama := Some p2\<rparr>,
         (case panorama v of Some p1 \<Rightarrow> [OnLeave p1, OnEnter p2] | None \<Rightarrow> [OnEnter p2])))
   \<and> (otype (h p2) \<noteq> ''panorama'' \<longrightarrow> setPanorama h v p2 = (v, []))
   \<and> (panorama v = None \<and> otype (h p1) = ''panorama'' \<and> otype (h p2) = ''panorama'' \<longrightarrow>
        run h v [SetPanorama p1, SetPanorama p2] =
          (v\<lparr>panorama := Some p2\<rparr>, [OnEnter p1, OnLeave p1, OnEnter p2]))"
  by (simp add: setPanorama_def and_then_def split: option.splits)

theorem setPanorama_leave_before_enter_witness:
  "otype (scene 10) = ''panorama'' \<and> otype (scene 6) = ''panorama'' \<and> otype (scene 5) \<noteq> ''panorama''
   \<and> panorama viewer0 = None
   \<and> setPanorama scene viewer0 10 = (viewer0\<lparr>panorama := Some 10\<rparr>, [OnEnter 10])
   \<and> setPanorama scene pressed_viewer 6 = (pressed_viewer\<lparr>panorama := Some 6\<rparr>, [OnLeave 10, OnEnter 6])
   \<and> setPanorama scene pressed_viewer 5 = (pressed_viewer, [])
   \<and> run scene viewer0 [SetPanorama 10, SetPanorama 6] =
        (viewer0\<lparr>panorama := Some 6\<rparr>, [OnEnter 10, OnLeave 10, OnEnter 6])"
  using setPanorama_leave_before_enter [of scene 10 viewer0 6]
    setPanorama_leave_before_enter [of scene 6 pressed_viewer 10]
    setPanorama_leave_before_enter [of scene 5 pressed_viewer 10]
    setPanorama_leave_before_enter [of scene 6 viewer0 10]
  by (simp add: scene_def plain_def viewer0_def pressed_viewer_def)

section \<open>The frame tick\<close>

text \<open>
  Claim C8 says that a frame tick updates the VR controls exactly when the VR mode is
  active. \<^verbatim>\<open>render\<close> reads \<^verbatim>\<open>this.VRManager.Mode\<close>, a property the manager does not
  have (\<^verbatim>\<open>toggleVR\<close> reads the manager's \<^verbatim>\<open>mode\<close>), so the comparison with
  \<^verbatim>\<open>WebVRManager.Modes.VR\<close> is false in every mode. In the VR mode the tick advances the
  tweens, calls the callbacks in the order of registration, updates the active
  control and renders, and never updates the VR controls.
\<close>

theorem render_in_VR_mode_skips_VRControls:
  "VRManager_mode vr_viewer = VR
   \<and> snd (render vr_viewer) = [TWEEN_update, Callback 7, Callback 9, Control_update 20, VRManager_render]"
  by (simp add: render_def vr_viewer_def viewer0_def)

section \<open>Lemmas on the pointer handlers\<close>

lemma onTap_keeps [simp]:
  "options (fst (onTap h v ev ty rc)) = options v"
  "userMouse_x (fst (onTap h v ev ty rc)) = userMouse_x v"
  "userMouse_y (fst (onTap h v ev ty rc)) = userMouse_y v"
  "userMouse_type (fst (onTap h v ev ty rc)) = userMouse_type v"
  "panorama (fst (onTap h v ev ty rc)) = panorama v"
  "DEBUG (fst (onTap h v ev ty rc)) = DEBUG v"
  "camera_position (fst (onTap h v ev ty rc)) = camera_position v"
  "controls (fst (onTap h v ev ty rc)) = controls v"
  "control (fst (onTap h v ev ty rc)) = control v"
  "OrbitControls (fst (onTap h v ev ty rc)) = OrbitControls v"
  "control_objs (fst (onTap h v ev ty rc)) = control_objs v"
  "updateCallbacks (fst (onTap h v ev ty rc)) = updateCallbacks v"
  "VRManager_mode (fst (onTap h v ev ty rc)) = VRManager_mode v"
  "VRManager_Mode (fst (onTap h v ev ty rc)) = VRManager_Mode v"
  by (cases "panorama v";
      simp add: onTap_no_panorama fst_onTap fst_tap_infospot after_press_hover_def)+

lemma fst_onMouseMove:
  "fst (onMouseMove h v ev rc) = fst (onTap h (v\<lparr>userMouse_type := mousemove\<rparr>) ev Undefined rc)"
  by (simp add: onMouseMove_def split_beta)






section \<open>Click classification\<close>



section \<open>Switching the control\<close>

text \<open>
  Claim C7, as the code has it. \<^verbatim>\<open>enableControl\<close> with an index outside
  \<open>[0, count)\<close> selects index 0. With an active control and a current panorama it
  returns; the selected control is the active one and is enabled, the control that was
  active is disabled unless it is the selected one, and no other control, no name and
  no orbit target changes. The camera is placed at the panorama's position moved by 1
  along z for the control named \<^verbatim>\<open>orbit\<close>, at the panorama's position for the control
  named \<^verbatim>\<open>device-orientation\<close>, and is left where it was for any other control. The
  orbit focus is set to the panorama's position by \<^verbatim>\<open>setCameraControl\<close>, the listener of
  \<^verbatim>\<open>enter-start\<close>, and not by the switch.
\<close>

theorem enableControl_switches_and_places_camera:
  assumes "control v = Some c0" and "controls v \<noteq> []" and "panorama v = Some p"
    and "c = controls v ! nat (if 0 \<le> index \<and> index < int (length (controls v)) then index else 0)"
    and "enableControl h v index = (v', tr, r)"
  shows "r = Return ()
    \<and> control v' = Some c
    \<and> enabled (control_objs v' c)
    \<and> (c0 \<noteq> c \<longrightarrow> \<not> enabled (control_objs v' c0))
    \<and> (\<forall>c'. c' \<noteq> c \<and> c' \<noteq> c0 \<longrightarrow> control_objs v' c' = control_objs v c')
    \<and> (\<forall>c'. cname (control_objs v' c') = cname (control_objs v c')
             \<and> ctarget (control_objs v' c') = ctarget (control_objs v c'))
    \<and> camera_position v' =
         (if cname (control_objs v c) = ''orbit''
          then (position (h p))\<lparr>vz := vz (position (h p)) + 1\<rparr>
          else if cname (control_objs v c) = ''device-orientation'' then position (h p)
          else camera_position v)
    \<and> fst (setCameraControl h v) =
         v\<lparr>camera_position := (position (h p))\<lparr>vz := vz (position (h p)) + 1\<rparr>,
           control_objs := (control_objs v)
             (OrbitControls v := (control_objs v (OrbitControls v))\<lparr>ctarget := position (h p)\<rparr>)\<rparr>"
proof -
  have v': "v' = fst (enableControl h v index)" and r: "r = snd (snd (enableControl h v index))"
    using assms(5) by simp_all
  show ?thesis
    unfolding v' r enableControl_state [OF assms(1-4)]
    using assms(3) by (simp add: setCameraControl_def Let_def)
qed

text \<open>
  In the small scene, with the orbit control (20) active and panorama 10 current: index 1
  selects the device-orientation control (21) and puts the camera at \<open>(5, 0, 0)\<close>;
  index 7 is out of range and selects the orbit control, with the camera at
  \<open>(5, 0, 1)\<close>.
\<close>

theorem enableControl_switches_and_places_camera_witness:
  "control pressed_viewer = Some 20 \<and> controls pressed_viewer = [20, 21] \<and> panorama pressed_viewer = Some 10
   \<and> snd (snd (enableControl scene pressed_viewer 7)) = Return ()
   \<and> control (fst (enableControl scene pressed_viewer 1)) = Some 21
   \<and> enabled (control_objs (fst (enableControl scene pressed_viewer 1)) 21)
   \<and> \<not> enabled (control_objs (fst (enableControl scene pressed_viewer 1)) 20)
   \<and> camera_position (fst (enableControl scene pressed_viewer 1)) = \<lparr>vx = 5, vy = 0, vz = 0\<rparr>
   \<and> control (fst (enableControl scene pressed_viewer 7)) = Some 20
   \<and> enabled (control_objs (fst (enableControl scene pressed_viewer 7)) 20)
   \<and> camera_position (fst (enableControl scene pressed_viewer 7)) = \<lparr>vx = 5, vy = 0, vz = 1\<rparr>"
proof -
  have a: "control pressed_viewer = Some 20" "controls pressed_viewer \<noteq> []" "panorama pressed_viewer = Some 10"
    and cs: "controls pressed_viewer = [20, 21]"
    and names: "cname (control_objs pressed_viewer 20) = ''orbit''"
      "cname (control_objs pressed_viewer 21) = ''device-orientation''"
    by (simp_all add: pressed_viewer_def orbit_control_def device_control_def)
  have i1: "(21::nat) = controls pressed_viewer ! nat (if 0 \<le> (1::int) \<and> 1 < int (length (controls pressed_viewer)) then 1 else 0)"
    and i7: "(20::nat) = controls pressed_viewer ! nat (if 0 \<le> (7::int) \<and> 7 < int (length (controls pressed_viewer)) then 7 else 0)"
    by (simp_all add: cs)
  have e1: "enableControl scene pressed_viewer 1 =
      (fst (enableControl scene pressed_viewer 1), fst (snd (enableControl scene pressed_viewer 1)),
       snd (snd (enableControl scene pressed_viewer 1)))"
    and e7: "enableControl scene pressed_viewer 7 =
      (fst (enableControl scene pressed_viewer 7), fst (snd (enableControl scene pressed_viewer 7)),
       snd (snd (enableControl scene pressed_viewer 7)))"
    by simp_all
  show ?thesis
    using enableControl_switches_and_places_camera [OF a i1 e1]
      enableControl_switches_and_places_camera [OF a i7 e7] a(1,3) cs names
    by simp
qed

text \<open>
  Claim C7 as stated says that the switch to an orbit control re-targets the orbit focus
  at the panorama's position. After \<^verbatim>\<open>setPanorama\<close> of the panorama at \<open>(5, 0, 0)\<close> and
  \<^verbatim>\<open>enableControl( 0 )\<close>, the camera is at \<open>(5, 0, 1)\<close> and the focus of the orbit control
  is still the origin.
\<close>

theorem enableControl_leaves_orbit_target:
  "camera_position (fst (run scene viewer0 [SetPanorama 10, EnableControl 0])) = \<lparr>vx = 5, vy = 0, vz = 1\<rparr>
   \<and> position (scene 10) = \<lparr>vx = 5, vy = 0, vz = 0\<rparr>
   \<and> control (fst (run scene viewer0 [SetPanorama 10, EnableControl 0])) = Some 20
   \<and> cname (control_objs (fst (run scene viewer0 [SetPanorama 10, EnableControl 0])) 20) = ''orbit''
   \<and> ctarget (control_objs (fst (run scene viewer0 [SetPanorama 10, EnableControl 0])) 20) = origin
   \<and> ctarget (control_objs (fst (run scene viewer0 [SetPanorama 10, EnableControl 0])) 20) \<noteq> position (scene 10)"
proof -
  have sp: "setPanorama scene viewer0 10 = (viewer0\<lparr>panorama := Some 10\<rparr>, [OnEnter 10])"
    by (simp add: setPanorama_def)
  let ?v = "viewer0\<lparr>panorama := Some 10\<rparr>"
  have a1: "control ?v = Some 20"
    by simp
  have a2: "controls ?v \<noteq> []"
    by simp
  have a3: "panorama ?v = Some 10"
    by simp
  have a4: "20 = controls ?v ! nat (if 0 \<le> (0::int) \<and> 0 < int (length (controls ?v)) then 0 else 0)"
    by simp
  have n: "cname (control_objs ?v 20) = ''orbit''"
    by (simp add: orbit_control_def)
  have t: "ctarget (control_objs ?v 20) = origin"
    by (simp add: orbit_control_def)
  have pos: "(position (scene 10))\<lparr>vz := vz (position (scene 10)) + 1\<rparr> = \<lparr>vx = 5, vy = 0, vz = 1\<rparr>"
    by simp
  have ne: "origin \<noteq> position (scene 10)"
    by (simp add: origin_def)
  show ?thesis
    unfolding run.simps step.simps sp drop_completion_def fst_and_then fst_conv
      enableControl_state [OF a1 a2 a3 a4, of scene]
    using n t pos ne by simp
qed

section \<open>Lemmas on the handlers' states and calls\<close>

lemma onTap_refs:
  "panorama v = Some p \<Longrightarrow>
   hoverObject (fst (onTap h v ev ty rc)) =
     (if ty = Click then hoverObject v else getConvertedIntersect h (on_children rc))"
  "panorama v = Some p \<Longrightarrow>
   pressEntityObject (fst (onTap h v ev ty rc)) =
     (if userMouse_type v = mouseup then None
      else if ty \<noteq> Click \<and> userMouse_type v = mousedown
              \<and> getConvertedIntersect h (on_children rc) \<noteq> None
      then getConvertedIntersect h (on_children rc)
      else pressEntityObject v)"
  "panorama v = Some p \<Longrightarrow>
   pressObject (fst (onTap h v ev ty rc)) =
     (if userMouse_type v = mouseup then None
      else if ty \<noteq> Click \<and> userMouse_type v = mousedown
              \<and> getConvertedIntersect h (on_children rc) \<noteq> None
      then Some (object (hd (on_children rc)))
      else pressObject v)"
  by (simp_all add: fst_onTap fst_tap_infospot after_press_hover_def)

lemma fst_onMouseDown:
  "fst (onMouseDown h v ev rc) =
     (case down_coord (clientX ev) (touches ev) tclientX of
        Inl e \<Rightarrow> v
      | Inr x \<Rightarrow>
          (case down_coord (clientY ev) (touches ev) tclientY of
             Inl e \<Rightarrow> v\<lparr>userMouse_x := x\<rparr>
           | Inr y \<Rightarrow>
               fst (onTap h (v\<lparr>userMouse_x := x, userMouse_y := y, userMouse_type := mousedown\<rparr>)
                      ev Undefined rc)))"
  by (simp add: onMouseDown_def Let_def split_beta split: sum.splits)

lemma trace_onMouseDown:
  "fst (snd (onMouseDown h v ev rc)) =
     (case down_coord (clientX ev) (touches ev) tclientX of
        Inl e \<Rightarrow> [PreventDefault]
      | Inr x \<Rightarrow>
          (case down_coord (clientY ev) (touches ev) tclientY of
             Inl e \<Rightarrow> [PreventDefault]
           | Inr y \<Rightarrow>
               PreventDefault #
               fst (snd (onTap h (v\<lparr>userMouse_x := x, userMouse_y := y, userMouse_type := mousedown\<rparr>)
                      ev Undefined rc))))"
  by (simp add: onMouseDown_def Let_def split_beta split: sum.splits)

lemma trace_onMouseMove:
  "fst (snd (onMouseMove h v ev rc)) =
     PreventDefault # fst (snd (onTap h (v\<lparr>userMouse_type := mousemove\<rparr>) ev Undefined rc))"
  by (simp add: onMouseMove_def split_beta)

lemma fst_onMouseUp:
  "fst (onMouseUp h v ev rc) =
     (case click_type (v\<lparr>userMouse_type := mouseup\<rparr>) ev of
        Inl e \<Rightarrow> v\<lparr>userMouse_type := mouseup\<rparr>
      | Inr ty \<Rightarrow>
          if off_canvas ev then v\<lparr>userMouse_type := mouseup\<rparr>
          else (fst (onTap h (v\<lparr>userMouse_type := mouseup\<rparr>) (release_event ev) ty rc))
                 \<lparr>userMouse_type := none\<rparr>)"
  by (simp add: onMouseUp_def Let_def split_beta split: sum.splits)

lemma trace_onMouseUp:
  "fst (snd (onMouseUp h v ev rc)) =
     (case click_type (v\<lparr>userMouse_type := mouseup\<rparr>) ev of
        Inl e \<Rightarrow> []
      | Inr ty \<Rightarrow>
          if off_canvas ev then []
          else PreventDefault #
               fst (snd (onTap h (v\<lparr>userMouse_type := mouseup\<rparr>) (release_event ev) ty rc))
               @ (if \<not> snd (snd (onTap h (v\<lparr>userMouse_type := mouseup\<rparr>) (release_event ev) ty rc))
                     \<and> ty = Click \<and> autoHideInfospot (options v)
                  then (case panorama v of Some p \<Rightarrow> [ToggleChildrenVisibility p] | None \<Rightarrow> [])
                  else []))"
  by (simp add: onMouseUp_def Let_def split_beta split: sum.splits)

lemma click_type_returns:
  "changedTouches ev \<noteq> Some [] \<Longrightarrow> \<exists>ty. click_type v ev = Inr ty"
  by (simp add: click_type_def Let_def split: option.splits list.splits)

lemma completion_onMouseUp:
  "snd (snd (onMouseUp h v ev rc)) =
     (case click_type (v\<lparr>userMouse_type := mouseup\<rparr>) ev of
        Inl e \<Rightarrow> Throw e
      | Inr ty \<Rightarrow>
          if off_canvas ev then Return ()
          else if snd (snd (onTap h (v\<lparr>userMouse_type := mouseup\<rparr>) (release_event ev) ty rc))
          then Return ()
          else if ty = Click \<and> autoHideControlBar (options v) then Throw ReferenceError
          else Return ())"
  by (simp add: onMouseUp_def Let_def split_beta split: sum.splits)

lemma pressed_viewer_fields [simp]:
  "panorama pressed_viewer = Some 10" "hoverObject pressed_viewer = Some 3"
  "pressEntityObject pressed_viewer = Some 3" "pressObject pressed_viewer = Some 2"
  "userMouse_x pressed_viewer = 100" "userMouse_y pressed_viewer = 100"
  "options pressed_viewer = options viewer0" "DEBUG pressed_viewer = False"
  "hoveringObject pressed_viewer = None"
  by (simp_all add: pressed_viewer_def)

lemma mouse_ev_fields [simp]:
  "clientX (mouse_ev x y cl) = Some x" "clientY (mouse_ev x y cl) = Some y"
  "touches (mouse_ev x y cl) = None" "changedTouches (mouse_ev x y cl) = None"
  "target (mouse_ev x y cl) = Some cl"
  by (simp_all add: mouse_ev_def)

lemma cast_fields [simp]:
  "on_children (cast rs) = map hit rs" "on_panorama (cast rs) = []" "object (hit r) = r"
  by (simp_all add: cast_def hit_def)

lemma autohide_viewer_fields [simp]:
  "panorama autohide_viewer = None" "autoHideControlBar (options autohide_viewer)"
  "clickTolerance (options autohide_viewer) = 10"
  "userMouse_x autohide_viewer = 0" "userMouse_y autohide_viewer = 0"
  by (simp_all add: autohide_viewer_def viewer0_def Viewer_options_def)

lemma show_viewer_fields [simp]:
  "panorama show_viewer = Some 10" "hoverObject show_viewer = None"
  by (simp_all add: show_viewer_def)

lemma resolved_move_over [simp]:
  "resolved scene (move_over rs) = getConvertedIntersect scene (map hit rs)"
  by (simp add: resolved_def move_over_def)

lemma scene_resolutions [simp]:
  "getConvertedIntersect scene [hit 2] = Some 3"
  "getConvertedIntersect scene [hit 4, hit 2] = Some 3"
  "getConvertedIntersect scene [hit 5] = Some 5"
  "getConvertedIntersect scene [hit 4] = None"
  by (simp_all add: getConvertedIntersect_resolveEntity resolveEntity_Cons skipped_def
      target_of_def resolveEntity_def)

section \<open>Lemmas on the hover and press references\<close>

lemma getConvertedIntersect_opaque:
  "getConvertedIntersect h xs = Some t \<Longrightarrow> \<not> passThrough (h t)"
  by (simp add: getConvertedIntersect_resolveEntity resolveEntity_opaque)

lemma refs_opaque_fields:
  "hoverObject v' = hoverObject v \<Longrightarrow> pressEntityObject v' = pressEntityObject v \<Longrightarrow>
   refs_opaque h v' = refs_opaque h v"
  by (simp add: refs_opaque_def)

lemma onTap_assigns_resolved:
  "(hoverObject (fst (onTap h v ev ty rc)) = hoverObject v
    \<or> hoverObject (fst (onTap h v ev ty rc)) = getConvertedIntersect h (on_children rc))
   \<and> (pressEntityObject (fst (onTap h v ev ty rc)) = pressEntityObject v
      \<or> pressEntityObject (fst (onTap h v ev ty rc)) = None
      \<or> pressEntityObject (fst (onTap h v ev ty rc)) = getConvertedIntersect h (on_children rc))"
  by (cases "panorama v") (simp_all add: onTap_no_panorama onTap_refs)

lemma refs_opaque_onTap:
  assumes "refs_opaque h v"
  shows "refs_opaque h (fst (onTap h v ev ty rc))"
proof -
  have r: "case getConvertedIntersect h (on_children rc) of None \<Rightarrow> True | Some t \<Rightarrow> \<not> passThrough (h t)"
    by (simp add: getConvertedIntersect_opaque split: option.splits)
  from onTap_assigns_resolved [of h v ev ty rc] assms r show ?thesis
    unfolding refs_opaque_def by (elim conjE disjE) simp_all
qed

lemma refs_opaque_mouse_type [simp]:
  "refs_opaque h (v\<lparr>userMouse_type := t\<rparr>) = refs_opaque h v"
  "refs_opaque h (v\<lparr>userMouse_x := x\<rparr>) = refs_opaque h v"
  "refs_opaque h (v\<lparr>userMouse_y := y\<rparr>) = refs_opaque h v"
  by (simp_all add: refs_opaque_def)

lemma refs_opaque_pointer:
  assumes "refs_opaque h v"
  shows "refs_opaque h (fst (onMouseDown h v ev rc))"
    and "refs_opaque h (fst (onMouseMove h v ev rc))"
    and "refs_opaque h (fst (onMouseUp h v ev rc))"
  using assms
  by (simp_all add: fst_onMouseDown fst_onMouseMove fst_onMouseUp refs_opaque_onTap
      split: sum.splits)

lemma enableControl_pose_refs:
  "hoverObject (fst (enableControl_pose h v c)) = hoverObject v"
  "pressEntityObject (fst (enableControl_pose h v c)) = pressEntityObject v"
  by (simp_all add: enableControl_pose_def Let_def split: option.splits)

lemma enableControl_refs:
  "hoverObject (fst (enableControl h v i)) = hoverObject v"
  "pressEntityObject (fst (enableControl h v i)) = pressEntityObject v"
  by (simp_all add: enableControl_def Let_def enableControl_pose_refs split: option.splits)

lemma refs_opaque_enableControl:
  "refs_opaque h' (fst (enableControl h v i)) = refs_opaque h' v"
  by (simp add: refs_opaque_def enableControl_refs)

lemma refs_opaque_step:
  assumes "refs_opaque h v"
  shows "refs_opaque h (fst (step h v a))"
proof (cases a)
  case (MouseDown ev rc)
  then show ?thesis
    using assms by (simp add: drop_completion_def refs_opaque_pointer)
next
  case (MouseMove ev rc)
  then show ?thesis
    using assms by (simp add: drop_completion_def refs_opaque_pointer)
next
  case (MouseUp ev rc)
  then show ?thesis
    using assms by (simp add: drop_completion_def refs_opaque_pointer)
next
  case (EnableControl i)
  then show ?thesis
    using assms by (simp add: drop_completion_def refs_opaque_enableControl)
next
  case ToggleNextControl
  then show ?thesis
    using assms by (simp add: drop_completion_def refs_opaque_enableControl toggleNextControl_def)
qed (use assms in \<open>simp_all add: drop_completion_def setPanorama_def refs_opaque_def
      setCameraControl_def Let_def toggleVR_def addUpdateCallback_def render_def
      onKeyDown_def onKeyUp_def split: option.splits\<close>)

lemma refs_opaque_run:
  "refs_opaque h v \<Longrightarrow> refs_opaque h (fst (run h v as))"
  by (induction as arbitrary: v) (simp_all add: refs_opaque_step)

lemma render_reads:
  "updateCallbacks v' = updateCallbacks v \<Longrightarrow> control v' = control v \<Longrightarrow>
   VRManager_Mode v' = VRManager_Mode v \<Longrightarrow> snd (render v') = snd (render v)"
  by (simp add: render_def)

lemma render_after_pointer:
  "snd (render (fst (onMouseDown h v ev rc))) = snd (render v)"
  "snd (render (fst (onMouseMove h v ev rc))) = snd (render v)"
  "snd (render (fst (onMouseUp h v ev rc))) = snd (render v)"
  by (rule render_reads; simp add: fst_onMouseDown fst_onMouseMove fst_onMouseUp split: sum.splits)+

lemma pointer_keeps_render:
  "is_pointer a \<Longrightarrow> snd (render (fst (step h v a))) = snd (render v)"
  by (cases a) (simp_all add: is_pointer_def drop_completion_def render_after_pointer)

lemma pointers_keep_render:
  "list_all is_pointer as \<Longrightarrow> snd (render (fst (run h v as))) = snd (render v)"
proof (induction as arbitrary: v)
  case Nil
  show ?case by simp
next
  case (Cons a as)
  then have "snd (render (fst (run h (fst (step h v a)) as))) = snd (render (fst (step h v a)))"
    by simp
  also have "\<dots> = snd (render v)"
    using Cons.prems by (simp add: pointer_keeps_render)
  finally show ?case by simp
qed

lemma pointer_without_panorama:
  assumes "panorama v = None" and "is_pointer a"
  shows "targets t (snd (step h v a)) = []
    \<and> hoverObject (fst (step h v a)) = hoverObject v
    \<and> hoveringObject (fst (step h v a)) = hoveringObject v
    \<and> pressEntityObject (fst (step h v a)) = pressEntityObject v
    \<and> pressObject (fst (step h v a)) = pressObject v
    \<and> panorama (fst (step h v a)) = None"
proof (cases a)
  case (MouseDown ev rc)
  then show ?thesis
    using assms(1)
    by (simp add: drop_completion_def fst_onMouseDown trace_onMouseDown onTap_no_panorama
        split: sum.splits)
next
  case (MouseMove ev rc)
  then show ?thesis
    using assms(1)
    by (simp add: drop_completion_def fst_onMouseMove trace_onMouseMove onTap_no_panorama)
next
  case (MouseUp ev rc)
  then show ?thesis
    using assms(1)
    by (simp add: drop_completion_def fst_onMouseUp trace_onMouseUp onTap_no_panorama
        split: sum.splits)
qed (use assms(2) in \<open>simp_all add: is_pointer_def\<close>)

section \<open>Lemmas on runs of hover-type updates\<close>

lemma hover_updates_Cons:
  "fst (hover_updates h v (u # us)) =
     fst (hover_updates h (fst (onTap h (v\<lparr>userMouse_type := fst u\<rparr>) (fst (snd u)) Undefined (snd (snd u)))) us)"
  "snd (hover_updates h v (u # us)) =
     fst (snd (onTap h (v\<lparr>userMouse_type := fst u\<rparr>) (fst (snd u)) Undefined (snd (snd u))))
     @ snd (hover_updates h (fst (onTap h (v\<lparr>userMouse_type := fst u\<rparr>) (fst (snd u)) Undefined (snd (snd u)))) us)"
  by (simp_all add: Let_def)

lemma hover_updates_append:
  "fst (hover_updates h v (us @ ws)) = fst (hover_updates h (fst (hover_updates h v us)) ws)
   \<and> snd (hover_updates h v (us @ ws)) =
       snd (hover_updates h v us) @ snd (hover_updates h (fst (hover_updates h v us)) ws)"
  by (induction us arbitrary: v) (simp_all add: Let_def)

lemma hover_update_state:
  assumes "panorama v = Some p"
  shows "panorama (fst (onTap h (v\<lparr>userMouse_type := m\<rparr>) ev Undefined rc)) = Some p"
    and "hoverObject (fst (onTap h (v\<lparr>userMouse_type := m\<rparr>) ev Undefined rc)) =
           getConvertedIntersect h (on_children rc)"
    and "targets hoverenter (fst (snd (onTap h (v\<lparr>userMouse_type := m\<rparr>) ev Undefined rc))) =
           (case getConvertedIntersect h (on_children rc) of
              Some e \<Rightarrow> if dispatchEvent (h e) \<and> hoverObject v \<noteq> Some e then [e] else []
            | None \<Rightarrow> [])"
    and "targets hoverleave (fst (snd (onTap h (v\<lparr>userMouse_type := m\<rparr>) ev Undefined rc))) =
           (case hoverObject v of
              Some ho \<Rightarrow>
                if dispatchEvent (h ho)
                   \<and> ((length (on_children rc) > 0 \<and> Some ho \<noteq> getConvertedIntersect h (on_children rc))
                       \<or> length (on_children rc) = 0)
                then [ho] else []
            | None \<Rightarrow> [])"
proof -
  have p: "panorama (v\<lparr>userMouse_type := m\<rparr>) = Some p"
    using assms by simp
  show "panorama (fst (onTap h (v\<lparr>userMouse_type := m\<rparr>) ev Undefined rc)) = Some p"
    using assms by simp
  show "hoverObject (fst (onTap h (v\<lparr>userMouse_type := m\<rparr>) ev Undefined rc)) =
           getConvertedIntersect h (on_children rc)"
    by (simp add: onTap_refs [OF p])
  show "targets hoverenter (fst (snd (onTap h (v\<lparr>userMouse_type := m\<rparr>) ev Undefined rc))) =
           (case getConvertedIntersect h (on_children rc) of
              Some e \<Rightarrow> if dispatchEvent (h e) \<and> hoverObject v \<noteq> Some e then [e] else []
            | None \<Rightarrow> [])"
    by (simp add: hoverenter_onTap [OF p] split: option.splits)
  show "targets hoverleave (fst (snd (onTap h (v\<lparr>userMouse_type := m\<rparr>) ev Undefined rc))) =
           (case hoverObject v of
              Some ho \<Rightarrow>
                if dispatchEvent (h ho)
                   \<and> ((length (on_children rc) > 0 \<and> Some ho \<noteq> getConvertedIntersect h (on_children rc))
                       \<or> length (on_children rc) = 0)
                then [ho] else []
            | None \<Rightarrow> [])"
    by (simp add: hoverleave_onTap [OF p] split: option.splits)
qed

lemma hovering_run:
  assumes "panorama v = Some p" and "dispatchEvent (h e)"
    and "list_all (\<lambda>u. resolved h u = Some e) us"
  shows "panorama (fst (hover_updates h v us)) = Some p
    \<and> hoverObject (fst (hover_updates h v us)) = (if us = [] then hoverObject v else Some e)
    \<and> count_list (targets hoverenter (snd (hover_updates h v us))) e =
        (if us = [] \<or> hoverObject v = Some e then 0 else 1)
    \<and> count_list (targets hoverleave (snd (hover_updates h v us))) e = 0"
  using assms
proof (induction us arbitrary: v)
  case Nil
  then show ?case by simp
next
  case (Cons u us)
  let ?v' = "fst (onTap h (v\<lparr>userMouse_type := fst u\<rparr>) (fst (snd u)) Undefined (snd (snd u)))"
  have r: "getConvertedIntersect h (on_children (snd (snd u))) = Some e"
    using Cons.prems(3) by (simp add: resolved_def)
  note st = hover_update_state [OF Cons.prems(1), of h "fst u" "fst (snd u)" "snd (snd u)"]
  have p': "panorama ?v' = Some p" and ho': "hoverObject ?v' = Some e"
    using st(1,2) r by simp_all
  have rest: "list_all (\<lambda>u. resolved h u = Some e) us"
    using Cons.prems(3) by simp
  note IH = Cons.IH [OF p' Cons.prems(2) rest]
  have enter: "count_list (targets hoverenter
      (fst (snd (onTap h (v\<lparr>userMouse_type := fst u\<rparr>) (fst (snd u)) Undefined (snd (snd u)))))) e =
      (if hoverObject v = Some e then 0 else 1)"
    using Cons.prems(2) by (simp add: st(3) r)
  have leave: "count_list (targets hoverleave
      (fst (snd (onTap h (v\<lparr>userMouse_type := fst u\<rparr>) (fst (snd u)) Undefined (snd (snd u)))))) e = 0"
    using r resolve_nonempty [OF r] by (auto simp add: st(4) split: option.splits)
  show ?case
    using IH enter leave ho' by (simp add: Let_def)
qed

lemma leaving_update:
  assumes "panorama v = Some p" and "dispatchEvent (h e)" and "hoverObject v = Some e"
    and "resolved h u \<noteq> Some e"
  shows "hoverObject (fst (hover_updates h v [u])) \<noteq> Some e
    \<and> count_list (targets hoverenter (snd (hover_updates h v [u]))) e = 0
    \<and> count_list (targets hoverleave (snd (hover_updates h v [u]))) e = 1"
proof -
  note st = hover_update_state [OF assms(1), of h "fst u" "fst (snd u)" "snd (snd u)"]
  have r: "getConvertedIntersect h (on_children (snd (snd u))) \<noteq> Some e"
    using assms(4) by (simp add: resolved_def)
  have "on_children (snd (snd u)) = [] \<or>
      Some e \<noteq> getConvertedIntersect h (on_children (snd (snd u)))"
    using r by auto
  then show ?thesis
    using assms(2,3) r
    by (auto simp add: Let_def st split: option.splits)
qed

section \<open>Press state at release\<close>

text \<open>
  Claim C4, as the code has it. After every pointer-up event that passes the guard of
  line 460 (its target is the canvas, or it has no target), processed while a panorama
  is current, both the press entity and the press primitive are cleared, whatever the
  hit test of the release resolves and whether the handler returns or throws at line
  485. (The event is a mouse event or a touch end with at least one changed touch.)
\<close>

theorem mouseup_on_canvas_clears_press:
  assumes "panorama v = Some p" and "\<not> off_canvas ev" and "changedTouches ev \<noteq> Some []"
  shows "pressEntityObject (fst (onMouseUp h v ev rc)) = None
    \<and> pressObject (fst (onMouseUp h v ev rc)) = None"
proof -
  obtain ty where ty: "click_type (v\<lparr>userMouse_type := mouseup\<rparr>) ev = Inr ty"
    using click_type_returns [OF assms(3)] by blast
  have p: "panorama (v\<lparr>userMouse_type := mouseup\<rparr>) = Some p"
    using assms(1) by simp
  show ?thesis
    using assms(2) by (simp add: fst_onMouseUp ty onTap_refs [OF p])
qed

text \<open>
  A release at \<open>(400, 300)\<close> on the canvas over primitive 5, while entity 3 is pressed:
  the press references are cleared although the resolved target is not the pressed one.
\<close>

theorem mouseup_on_canvas_clears_press_witness:
  "panorama pressed_viewer = Some 10 \<and> \<not> off_canvas (mouse_ev 400 300 canvas)
   \<and> changedTouches (mouse_ev 400 300 canvas) \<noteq> Some []
   \<and> pressEntityObject pressed_viewer = Some 3
   \<and> getConvertedIntersect scene (on_children (cast [5])) = Some 5
   \<and> pressEntityObject (fst (onMouseUp scene pressed_viewer (mouse_ev 400 300 canvas) (cast [5]))) = None
   \<and> pressObject (fst (onMouseUp scene pressed_viewer (mouse_ev 400 300 canvas) (cast [5]))) = None"
proof -
  have a: "panorama pressed_viewer = Some 10"
    by simp
  have b: "\<not> off_canvas (mouse_ev 400 300 canvas)"
    by (simp add: off_canvas_def canvas_def)
  have c: "changedTouches (mouse_ev 400 300 canvas) \<noteq> Some []"
    by simp
  have r: "getConvertedIntersect scene (on_children (cast [5])) = Some 5"
    by (simp add: getConvertedIntersect_resolveEntity resolveEntity_Cons skipped_def target_of_def)
  show ?thesis
    using mouseup_on_canvas_clears_press [OF a b c, of scene "cast [5]"] a b c r by simp
qed

text \<open>
  Claim C4 as stated covers every pointer-up event, wherever the release occurred. A
  release over the control bar, an element that is not the canvas, returns at line 460
  before the hit test: entity 3 and primitive 2 stay pressed.
\<close>

theorem mouseup_off_canvas_keeps_press:
  "off_canvas (mouse_ev 100 100 [''panolens-control-bar''])
   \<and> onMouseUp scene pressed_viewer (mouse_ev 100 100 [''panolens-control-bar'']) (cast [2]) =
       (pressed_viewer\<lparr>userMouse_type := mouseup\<rparr>, [], Return ())
   \<and> pressEntityObject (pressed_viewer\<lparr>userMouse_type := mouseup\<rparr>) = Some 3
   \<and> pressObject (pressed_viewer\<lparr>userMouse_type := mouseup\<rparr>) = Some 2"
proof -
  have off: "off_canvas (mouse_ev 100 100 [''panolens-control-bar''])"
    by (simp add: off_canvas_def)
  have ty: "click_type (pressed_viewer\<lparr>userMouse_type := mouseup\<rparr>) (mouse_ev 100 100 [''panolens-control-bar'']) = Inr Click"
    by (simp add: click_type_def near_def)
  show ?thesis
    using off by (simp add: onMouseUp_def ty)
qed

section \<open>Press moves\<close>

text \<open>
  Claim C5, as the code has it. For every move processed while a panorama is current:
  when a press entity that can dispatch events is tracked, one \<^verbatim>\<open>pressmove-entity\<close> is
  dispatched on it if the hit test of the move resolves a target, the tracked entity or
  any other, and none if it resolves no target; the entity stays tracked. The same
  holds for \<^verbatim>\<open>pressmove\<close> on the tracked press primitive.
\<close>

theorem pressmove_fires_over_any_target:
  assumes "panorama v = Some p"
  shows "(pressEntityObject v = Some pe \<and> dispatchEvent (h pe) \<longrightarrow>
           targets pressmove_entity (fst (snd (onMouseMove h v ev rc))) =
             (if getConvertedIntersect h (on_children rc) = None then [] else [pe])
           \<and> pressEntityObject (fst (onMouseMove h v ev rc)) = Some pe)
       \<and> (pressObject v = Some po \<and> dispatchEvent (h po) \<longrightarrow>
           targets pressmove (fst (snd (onMouseMove h v ev rc))) =
             (if getConvertedIntersect h (on_children rc) = None then [] else [po])
           \<and> pressObject (fst (onMouseMove h v ev rc)) = Some po)"
proof -
  have p: "panorama (v\<lparr>userMouse_type := mousemove\<rparr>) = Some p"
    using assms by simp
  have m: "userMouse_type (v\<lparr>userMouse_type := mousemove\<rparr>) = mousemove"
    by simp
  show ?thesis
    by (simp add: trace_onMouseMove fst_onMouseMove pressmove_entity_onTap [OF p m]
        pressmove_onTap [OF p m] onTap_refs [OF p])
qed

text \<open>
  Entity 3 is pressed through primitive 2. A move over primitive 5 dispatches
  \<^verbatim>\<open>pressmove-entity\<close> on 3 and \<^verbatim>\<open>pressmove\<close> on 2; a move over the pass-through marker 4
  dispatches none.
\<close>

theorem pressmove_fires_over_any_target_witness:
  "panorama pressed_viewer = Some 10 \<and> pressEntityObject pressed_viewer = Some 3
   \<and> pressObject pressed_viewer = Some 2 \<and> dispatchEvent (scene 3) \<and> dispatchEvent (scene 2)
   \<and> getConvertedIntersect scene (on_children (cast [5])) = Some 5
   \<and> targets pressmove_entity (fst (snd (onMouseMove scene pressed_viewer (mouse_ev 300 300 canvas) (cast [5])))) = [3]
   \<and> targets pressmove (fst (snd (onMouseMove scene pressed_viewer (mouse_ev 300 300 canvas) (cast [5])))) = [2]
   \<and> targets pressmove_entity (fst (snd (onMouseMove scene pressed_viewer (mouse_ev 300 300 canvas) (cast [4])))) = []"
proof -
  have a: "panorama pressed_viewer = Some 10"
    by simp
  have r: "getConvertedIntersect scene (on_children (cast [5])) = Some 5"
    "getConvertedIntersect scene (on_children (cast [4])) = None"
    by (simp_all add: getConvertedIntersect_resolveEntity resolveEntity_Cons skipped_def target_of_def resolveEntity_def)
  show ?thesis
    using pressmove_fires_over_any_target [OF a, of 3 scene "mouse_ev 300 300 canvas" "cast [5]" 2]
      pressmove_fires_over_any_target [OF a, of 3 scene "mouse_ev 300 300 canvas" "cast [4]" 2] r
    by simp
qed

text \<open>
  Claim C5 as stated has the press move fired on every move while an entity is pressed.
  A move over nothing dispatches \<^verbatim>\<open>hover\<close> on the panorama and \<^verbatim>\<open>hoverleave\<close> on entity
  3, and no press move, while 3 and 2 are pressed.
\<close>

theorem pressmove_not_fired_over_nothing:
  "pressEntityObject pressed_viewer = Some 3 \<and> pressObject pressed_viewer = Some 2
   \<and> onMouseMove scene pressed_viewer (mouse_ev 300 300 canvas) (cast []) =
       (pressed_viewer\<lparr>userMouse_type := mousemove, hoverObject := None, cursor := ''default''\<rparr>,
        [PreventDefault, Dispatch 10 hover, Dispatch 3 hoverleave], Return ())"
  by (simp add: onMouseMove_def onTap_def tap_debug_def tap_pressstop_entity_def tap_pressstop_def
      tap_hover_def tap_hoverleave_def tap_over_entity_def tap_infospot_def hideHoveringObject_def
      and_then_def)

section \<open>Pass-through objects are never referenced\<close>

text \<open>
  Claim C10. The resolver returns no target or a target that is not pass-through.
  \<^verbatim>\<open>onTap\<close> leaves the hover entity as it was or assigns it the resolver's result, and
  leaves the press entity as it was, clears it or assigns it the resolver's result. So,
  in a scene whose pass-through flags do not change, a viewer whose hover and press
  entities are not pass-through (as when both are empty) keeps this through every run
  of calls.
\<close>

theorem resolved_target_and_refs_not_pass_through:
  "(case getConvertedIntersect h xs of None \<Rightarrow> True | Some t \<Rightarrow> \<not> passThrough (h t))
   \<and> (hoverObject (fst (onTap h v ev ty rc)) = hoverObject v
      \<or> hoverObject (fst (onTap h v ev ty rc)) = getConvertedIntersect h (on_children rc))
   \<and> (pressEntityObject (fst (onTap h v ev ty rc)) = pressEntityObject v
      \<or> pressEntityObject (fst (onTap h v ev ty rc)) = None
      \<or> pressEntityObject (fst (onTap h v ev ty rc)) = getConvertedIntersect h (on_children rc))
   \<and> (refs_opaque h v \<longrightarrow> refs_opaque h (fst (run h v as)))"
  using onTap_assigns_resolved [of h v ev ty rc]
  by (simp add: getConvertedIntersect_opaque refs_opaque_run split: option.splits)

text \<open>
  From the initial viewer: after \<^verbatim>\<open>setPanorama\<close> and a press over the pass-through
  marker 4 in front of primitive 2, the hover and press entities are entity 3.
\<close>

theorem resolved_target_and_refs_not_pass_through_witness:
  "refs_opaque scene viewer0 \<and> passThrough (scene 4) \<and> \<not> passThrough (scene 3)
   \<and> getConvertedIntersect scene [hit 4, hit 2] = Some 3
   \<and> refs_opaque scene
        (fst (run scene viewer0 [SetPanorama 10, MouseDown (mouse_ev 100 100 canvas) (cast [4, 2])]))
   \<and> hoverObject
        (fst (run scene viewer0 [SetPanorama 10, MouseDown (mouse_ev 100 100 canvas) (cast [4, 2])])) = Some 3
   \<and> pressEntityObject
        (fst (run scene viewer0 [SetPanorama 10, MouseDown (mouse_ev 100 100 canvas) (cast [4, 2])])) = Some 3"
proof -
  have o: "refs_opaque scene viewer0"
    by (simp add: refs_opaque_def)
  have r: "getConvertedIntersect scene [hit 4, hit 2] = Some 3"
    by (simp add: getConvertedIntersect_resolveEntity resolveEntity_Cons skipped_def target_of_def)
  have sp: "setPanorama scene viewer0 10 = (viewer0\<lparr>panorama := Some 10\<rparr>, [OnEnter 10])"
    by (simp add: setPanorama_def)
  have d: "down_coord (Some 100) None tclientX = Inr 100" "down_coord (Some 100) None tclientY = Inr 100"
    by (simp_all add: down_coord_def)
  have p: "panorama (viewer0\<lparr>panorama := Some 10, userMouse_x := 100, userMouse_y := 100,
      userMouse_type := mousedown\<rparr>) = Some 10"
    by simp
  have e: "fst (run scene viewer0 [SetPanorama 10, MouseDown (mouse_ev 100 100 canvas) (cast [4, 2])]) =
      fst (onTap scene (viewer0\<lparr>panorama := Some 10, userMouse_x := 100, userMouse_y := 100,
      userMouse_type := mousedown\<rparr>) (mouse_ev 100 100 canvas) Undefined (cast [4, 2]))"
    by (simp add: sp drop_completion_def fst_onMouseDown d)
  show ?thesis
    using resolved_target_and_refs_not_pass_through [of scene "[hit 4, hit 2]" viewer0
        "mouse_ev 100 100 canvas" Undefined "cast [4, 2]"
        "[SetPanorama 10, MouseDown (mouse_ev 100 100 canvas) (cast [4, 2])]"] o r
    unfolding e by (simp add: onTap_refs [OF p])
qed

section \<open>Pointer events without a panorama\<close>

text \<open>
  Claim C9. While no panorama is current, \<^verbatim>\<open>onTap\<close> returns at once: it dispatches
  nothing and changes nothing. So a down, a move or an up handled without a panorama
  dispatches no event of any type and leaves the hover and press references as they
  were. A pointer handler may throw (line 427 or 428 on a mouse event with a zero
  coordinate, line 485 when \<^verbatim>\<open>autoHideControlBar\<close> is set), with or without a panorama,
  but it writes nothing the frame tick reads: after any run of pointer events, thrown
  or not, \<^verbatim>\<open>render\<close> makes the calls it would have made before.
\<close>

theorem pointer_event_without_panorama_is_dropped:
  "(panorama v = None \<longrightarrow> onTap h v ev ty rc = (v, [], False))
   \<and> (panorama v = None \<and> is_pointer a \<longrightarrow>
        targets t (snd (step h v a)) = []
        \<and> hoverObject (fst (step h v a)) = hoverObject v
        \<and> hoveringObject (fst (step h v a)) = hoveringObject v
        \<and> pressEntityObject (fst (step h v a)) = pressEntityObject v
        \<and> pressObject (fst (step h v a)) = pressObject v
        \<and> panorama (fst (step h v a)) = None)
   \<and> (list_all is_pointer as \<longrightarrow> snd (render (fst (run h v as))) = snd (render v))"
  using pointer_without_panorama [of v a t h] pointers_keep_render [of as h v]
  by (simp add: onTap_no_panorama)

text \<open>
  With \<^verbatim>\<open>autoHideControlBar\<close> set and no panorama, a mouse down at \<open>(0, 7)\<close> throws a
  TypeError and a click at \<open>(0, 0)\<close> on the canvas throws a ReferenceError; nothing is
  dispatched and the frame tick is as before.
\<close>

theorem pointer_event_without_panorama_is_dropped_witness:
  "panorama viewer0 = None \<and> panorama autohide_viewer = None \<and> is_pointer canvas_click
   \<and> list_all is_pointer [MouseDown (mouse_ev 0 7 canvas) (cast [2]), canvas_click]
   \<and> onTap scene viewer0 (mouse_ev 0 0 canvas) Click (cast [2]) = (viewer0, [], False)
   \<and> snd (snd (onMouseDown scene autohide_viewer (mouse_ev 0 7 canvas) (cast [2]))) = Throw TypeError
   \<and> snd (snd (onMouseUp scene autohide_viewer (mouse_ev 0 0 canvas) (cast [2]))) = Throw ReferenceError
   \<and> targets click (snd (step scene autohide_viewer canvas_click)) = []
   \<and> targets hover (snd (step scene autohide_viewer canvas_click)) = []
   \<and> hoverObject (fst (step scene autohide_viewer canvas_click)) = hoverObject autohide_viewer
   \<and> pressEntityObject (fst (step scene autohide_viewer canvas_click)) = pressEntityObject autohide_viewer
   \<and> snd (render (fst (run scene autohide_viewer
          [MouseDown (mouse_ev 0 7 canvas) (cast [2]), canvas_click]))) = snd (render autohide_viewer)"
proof -
  have n: "panorama viewer0 = None" "panorama autohide_viewer = None"
    by simp_all
  have ip: "is_pointer canvas_click" "list_all is_pointer [MouseDown (mouse_ev 0 7 canvas) (cast [2]), canvas_click]"
    by (simp_all add: is_pointer_def canvas_click_def)
  have ct: "click_type (autohide_viewer\<lparr>userMouse_type := mouseup\<rparr>) (mouse_ev 0 0 canvas) = Inr Click"
    by (simp add: click_type_def near_def)
  have oc: "\<not> off_canvas (mouse_ev 0 0 canvas)"
    by (simp add: off_canvas_def canvas_def)
  have down: "snd (snd (onMouseDown scene autohide_viewer (mouse_ev 0 7 canvas) (cast [2]))) = Throw TypeError"
    by (simp add: onMouseDown_def down_coord_def)
  have up: "snd (snd (onMouseUp scene autohide_viewer (mouse_ev 0 0 canvas) (cast [2]))) = Throw ReferenceError"
    by (simp add: completion_onMouseUp ct oc onTap_no_panorama)
  show ?thesis
    using pointer_event_without_panorama_is_dropped [of viewer0 scene "mouse_ev 0 0 canvas" Click "cast [2]" canvas_click click "[]"]
      pointer_event_without_panorama_is_dropped [of autohide_viewer scene "mouse_ev 0 0 canvas" Click "cast [2]" canvas_click click
        "[MouseDown (mouse_ev 0 7 canvas) (cast [2]), canvas_click]"]
      pointer_event_without_panorama_is_dropped [of autohide_viewer scene "mouse_ev 0 0 canvas" Click "cast [2]" canvas_click hover "[]"]
      n ip down up
    by simp
qed

section \<open>Hover transitions\<close>

text \<open>
  Claim C6. For hover-type updates while a panorama is current: an update that resolves
  the entity already hovered dispatches neither \<^verbatim>\<open>hoverenter\<close> nor \<^verbatim>\<open>hoverleave\<close> and
  keeps the hover reference; \<^verbatim>\<open>hoverleave\<close> is dispatched on the hovered entity (one
  that can dispatch events) exactly when intersections exist and the resolved entity
  differs, or there is no intersection, and the hover reference is then the newly
  resolved entity or empty; and a run of one or more updates that resolve an entity
  \<open>e\<close> not hovered before, followed by one that resolves anything else, dispatches
  exactly one \<^verbatim>\<open>hoverenter\<close> and exactly one \<^verbatim>\<open>hoverleave\<close> on \<open>e\<close>.
\<close>

theorem hover_enter_and_leave_once:
  assumes "panorama v = Some p"
  shows "(hoverObject v = Some e \<and> getConvertedIntersect h (on_children rc) = Some e \<longrightarrow>
            targets hoverenter (fst (snd (onTap h v ev Undefined rc))) = []
            \<and> targets hoverleave (fst (snd (onTap h v ev Undefined rc))) = []
            \<and> hoverObject (fst (onTap h v ev Undefined rc)) = Some e)
       \<and> (hoverObject v = Some e \<and> dispatchEvent (h e) \<longrightarrow>
            targets hoverleave (fst (snd (onTap h v ev Undefined rc))) =
              (if (length (on_children rc) > 0 \<and> getConvertedIntersect h (on_children rc) \<noteq> Some e)
                  \<or> length (on_children rc) = 0
               then [e] else [])
            \<and> hoverObject (fst (onTap h v ev Undefined rc)) = getConvertedIntersect h (on_children rc))
       \<and> (hoverObject v \<noteq> Some e \<and> dispatchEvent (h e) \<and> us \<noteq> []
           \<and> list_all (\<lambda>u. resolved h u = Some e) us \<and> resolved h u \<noteq> Some e \<longrightarrow>
            count_list (targets hoverenter (snd (hover_updates h v (us @ [u])))) e = 1
            \<and> count_list (targets hoverleave (snd (hover_updates h v (us @ [u])))) e = 1
            \<and> hoverObject (fst (hover_updates h v (us @ [u]))) \<noteq> Some e)"
proof (intro conjI impI)
  note st = hover_update_state [OF assms, of h "userMouse_type v" ev rc, simplified]
  {
    assume a: "hoverObject v = Some e \<and> getConvertedIntersect h (on_children rc) = Some e"
    then have ne: "on_children rc \<noteq> []"
      using resolve_nonempty by blast
    show "targets hoverenter (fst (snd (onTap h v ev Undefined rc))) = []"
      using a by (simp add: st(3))
    show "targets hoverleave (fst (snd (onTap h v ev Undefined rc))) = []"
      using a ne by (simp add: st(4))
    show "hoverObject (fst (onTap h v ev Undefined rc)) = Some e"
      using a by (simp add: st(2))
  }
  {
    assume b: "hoverObject v = Some e \<and> dispatchEvent (h e)"
    show "targets hoverleave (fst (snd (onTap h v ev Undefined rc))) =
              (if (length (on_children rc) > 0 \<and> getConvertedIntersect h (on_children rc) \<noteq> Some e)
                  \<or> length (on_children rc) = 0
               then [e] else [])"
      using b by (auto simp add: st(4))
    show "hoverObject (fst (onTap h v ev Undefined rc)) = getConvertedIntersect h (on_children rc)"
      by (simp add: st(2))
  }
  {
    assume c: "hoverObject v \<noteq> Some e \<and> dispatchEvent (h e) \<and> us \<noteq> []
           \<and> list_all (\<lambda>u. resolved h u = Some e) us \<and> resolved h u \<noteq> Some e"
    note run = hovering_run [OF assms, of h e us]
    let ?v' = "fst (hover_updates h v us)"
    have p': "panorama ?v' = Some p" and ho': "hoverObject ?v' = Some e"
      and enter: "count_list (targets hoverenter (snd (hover_updates h v us))) e = 1"
      and leave: "count_list (targets hoverleave (snd (hover_updates h v us))) e = 0"
      using run c by simp_all
    have d: "dispatchEvent (h e)" and r: "resolved h u \<noteq> Some e"
      using c by simp_all
    note last = leaving_update [OF p' d ho' r]
    show "count_list (targets hoverenter (snd (hover_updates h v (us @ [u])))) e = 1"
      using enter last by (simp add: hover_updates_append)
    show "count_list (targets hoverleave (snd (hover_updates h v (us @ [u])))) e = 1"
      using leave last by (simp add: hover_updates_append)
    show "hoverObject (fst (hover_updates h v (us @ [u]))) \<noteq> Some e"
      using last by (simp add: hover_updates_append)
  }
qed

text \<open>
  While entity 3 is hovered, a move over marker 4 and primitive 2 resolves 3 again and
  dispatches no hover event; a move over primitive 5, or over nothing, dispatches one
  \<^verbatim>\<open>hoverleave\<close> on 3. From a viewer that hovers nothing, two moves over entity 3 and
  one over primitive 5 dispatch one \<^verbatim>\<open>hoverenter\<close> and one \<^verbatim>\<open>hoverleave\<close> on 3.
\<close>

theorem hover_enter_and_leave_once_witness:
  "panorama pressed_viewer = Some 10 \<and> hoverObject pressed_viewer = Some 3 \<and> dispatchEvent (scene 3)
   \<and> targets hoverenter (fst (snd (onTap scene pressed_viewer (mouse_ev 300 200 canvas) Undefined (cast [4, 2])))) = []
   \<and> targets hoverleave (fst (snd (onTap scene pressed_viewer (mouse_ev 300 200 canvas) Undefined (cast [4, 2])))) = []
   \<and> targets hoverleave (fst (snd (onTap scene pressed_viewer (mouse_ev 300 200 canvas) Undefined (cast [5])))) = [3]
   \<and> hoverObject (fst (onTap scene pressed_viewer (mouse_ev 300 200 canvas) Undefined (cast [5]))) = Some 5
   \<and> targets hoverleave (fst (snd (onTap scene pressed_viewer (mouse_ev 300 200 canvas) Undefined (cast [])))) = [3]
   \<and> hoverObject (fst (onTap scene pressed_viewer (mouse_ev 300 200 canvas) Undefined (cast []))) = None
   \<and> panorama show_viewer = Some 10 \<and> hoverObject show_viewer = None
   \<and> resolved scene (move_over [2]) = Some 3 \<and> resolved scene (move_over [4, 2]) = Some 3
   \<and> resolved scene (move_over [5]) = Some 5
   \<and> count_list (targets hoverenter
         (snd (hover_updates scene show_viewer ([move_over [2], move_over [4, 2]] @ [move_over [5]])))) 3 = 1
   \<and> count_list (targets hoverleave
         (snd (hover_updates scene show_viewer ([move_over [2], move_over [4, 2]] @ [move_over [5]])))) 3 = 1"
proof -
  have p: "panorama pressed_viewer = Some 10" and s: "panorama show_viewer = Some 10"
    by simp_all
  show ?thesis
    using hover_enter_and_leave_once [OF p, of 3 scene "cast [4, 2]" "mouse_ev 300 200 canvas" "[]" "move_over []"]
      hover_enter_and_leave_once [OF p, of 3 scene "cast [5]" "mouse_ev 300 200 canvas" "[]" "move_over []"]
      hover_enter_and_leave_once [OF p, of 3 scene "cast []" "mouse_ev 300 200 canvas" "[]" "move_over []"]
      hover_enter_and_leave_once [OF s, of 3 scene "cast []" "mouse_ev 300 200 canvas"
        "[move_over [2], move_over [4, 2]]" "move_over [5]"]
    by simp
qed

end
